theory Spec2Isabelle
  imports Complex_Main "HOL-Library.AList"
begin

section \<open>Control-surface client: the reconnection engine\<close>

text \<open>
  The Stream Deck plugin (the client of the protocol) keeps its reconnect session in
  module-level variables. \<open>MXVOICE_CONFIG\<close> fixes the timing constants. All delays that
  occur are multiples of a power of two (3000, 4500, 6750, 10125, 15187.5, 22781.25, ...),
  so the IEEE double arithmetic of the source is exact on them and the rationals model it
  without rounding.
\<close>

definition reconnectDelay :: rat where
  "reconnectDelay = 3000"

definition maxReconnectDelay :: rat where
  "maxReconnectDelay = 30000"

definition maxReconnectAttempts :: nat where
  "maxReconnectAttempts = 10"

definition slowReconnectDelay :: rat where
  "slowReconnectDelay = 60000"

definition pingInterval :: rat where
  "pingInterval = 30000"

definition reconnectBackoffMultiplier :: rat where
  "reconnectBackoffMultiplier = 3 / 2"

text \<open>
  The global state of the plugin that the engine reads and writes. A timer variable holds
  \<open>None\<close> for \<open>null\<close> and otherwise the delay (or period) the timer was armed with; as in
  the source, the variable of a one-shot timer is not cleared when the timer fires.
  \<open>websocket\<close> holds the identity of the current socket object.
\<close>

record client =
  websocket :: "nat option"
  isConnected :: bool
  reconnectAttempts :: nat
  reconnectTimer :: "rat option"
  pingTimer :: "rat option"
  slowReconnectTimer :: "rat option"
  currentReconnectDelay :: rat

definition initial_client :: client where
  "initial_client =
     \<lparr> websocket = None, isConnected = False, reconnectAttempts = 0,
       reconnectTimer = None, pingTimer = None, slowReconnectTimer = None,
       currentReconnectDelay = reconnectDelay \<rparr>"

definition clearReconnectTimers :: "client \<Rightarrow> client" where
  "clearReconnectTimers s = s\<lparr> reconnectTimer := None, slowReconnectTimer := None \<rparr>"

definition stopPingTimer :: "client \<Rightarrow> client" where
  "stopPingTimer s = s\<lparr> pingTimer := None \<rparr>"

definition startPingTimer :: "client \<Rightarrow> client" where
  "startPingTimer s = (stopPingTimer s)\<lparr> pingTimer := Some pingInterval \<rparr>"

text \<open>
  \<open>startSlowReconnect\<close> replaces a running interval timer by a new one with the slow
  period. The button titles it also sets do not belong to the reconnect session.
\<close>

definition startSlowReconnect :: "client \<Rightarrow> client" where
  "startSlowReconnect s = s\<lparr> slowReconnectTimer := Some slowReconnectDelay \<rparr>"

text \<open>
  \<open>scheduleReconnect\<close>: below the attempt ceiling the attempt counter is incremented, a
  one-shot timer is armed with \<open>Math.min(currentReconnectDelay, maxReconnectDelay)\<close> and
  the stored delay is multiplied for the next attempt (clamped again); at the ceiling the
  engine switches to the slow interval timer.
\<close>

definition scheduleReconnect :: "client \<Rightarrow> client" where
  "scheduleReconnect s0 =
     (let s = clearReconnectTimers s0 in
      if reconnectAttempts s < maxReconnectAttempts then
        (let s1 = s\<lparr> reconnectAttempts := reconnectAttempts s + 1 \<rparr>;
             delay = min (currentReconnectDelay s1) maxReconnectDelay;
             s2 = s1\<lparr> reconnectTimer := Some delay \<rparr>
         in s2\<lparr> currentReconnectDelay :=
                   min (currentReconnectDelay s2 * reconnectBackoffMultiplier)
                       maxReconnectDelay \<rparr>)
      else startSlowReconnect s)"

text \<open>
  \<open>connectToMxVoice\<close> creates a new socket and installs the four handlers. The argument
  is the outcome of \<open>new WebSocket(url)\<close>: the identity of the new socket, or \<open>None\<close> when
  the constructor throws, which the source catches and answers with \<open>scheduleReconnect\<close>.
\<close>

definition connectToMxVoice :: "nat option \<Rightarrow> client \<Rightarrow> client" where
  "connectToMxVoice ctor s =
     (case ctor of
        Some w \<Rightarrow> s\<lparr> websocket := Some w \<rparr>
      | None \<Rightarrow> scheduleReconnect s)"

text \<open>
  The socket handlers. The requests for the current audio state that \<open>handleWebSocketOpen\<close>
  sends and the button updates of all three handlers leave the reconnect session alone and
  are not part of the model. The argument of \<open>handleWebSocketClose\<close> is \<open>event.code\<close>.
\<close>

definition handleWebSocketOpen :: "client \<Rightarrow> client" where
  "handleWebSocketOpen s =
     (let s1 = s\<lparr> isConnected := True, reconnectAttempts := 0,
                   currentReconnectDelay := reconnectDelay \<rparr>;
          s2 = clearReconnectTimers s1;
          s3 = startPingTimer s2
      in s3\<lparr> isConnected := True \<rparr>)"

definition handleWebSocketError :: "client \<Rightarrow> client" where
  "handleWebSocketError s = s\<lparr> isConnected := False \<rparr>"

definition handleWebSocketClose :: "nat \<Rightarrow> client \<Rightarrow> client" where
  "handleWebSocketClose code s =
     (let s1 = s\<lparr> isConnected := False, websocket := None \<rparr>;
          s2 = stopPingTimer s1
      in if code \<noteq> 1000 then scheduleReconnect s2 else s2)"

text \<open>
  \<open>forceReconnect\<close> closes the current socket with code 1000 (the close event arrives
  later, through \<open>handleWebSocketClose\<close>), clears all timers, resets the session and
  connects at once.
\<close>

definition forceReconnect :: "nat option \<Rightarrow> client \<Rightarrow> client" where
  "forceReconnect ctor s =
     (let s1 = clearReconnectTimers s;
          s2 = stopPingTimer s1;
          s3 = s2\<lparr> isConnected := False, reconnectAttempts := 0,
                    currentReconnectDelay := reconnectDelay \<rparr>
      in connectToMxVoice ctor s3)"

text \<open>
  A run of failing attempts. Each round starts with the close event of the current socket
  (the drop of an open connection, or the failure of the attempt before), records the
  attempt number and the timer that the handler leaves armed, and then lets that timer
  fire: its callback calls \<open>connectToMxVoice\<close>, the new socket (identity \<open>w\<close>) reports an
  error, and its close event opens the next round.
\<close>

fun retry_run :: "nat \<Rightarrow> nat \<Rightarrow> nat \<Rightarrow> client \<Rightarrow> (nat \<times> rat option) list" where
  "retry_run code w 0 s = []"
| "retry_run code w (Suc k) s =
     (let s1 = handleWebSocketClose code s
      in (reconnectAttempts s1, reconnectTimer s1)
           # retry_run code w k (handleWebSocketError (connectToMxVoice (Some w) s1)))"

section \<open>JavaScript values\<close>

text \<open>
  The host is written in JavaScript and handles whatever \<open>JSON.parse\<close> returns, so the
  model works on JavaScript values. A number is an IEEE double: a finite value (a
  rational), one of the two infinities (\<open>JSON.parse("1e999")\<close> is \<open>Infinity\<close>) or NaN.
  An object is the list of its own properties in insertion order, with distinct keys.
\<close>

datatype number = NaN | NInf | Fin rat | PInf

datatype jsval =
    Undefined
  | Null
  | Bool bool
  | Num number
  | Str string
  | Arr "jsval list"
  | Obj "(string \<times> jsval) list"

text \<open>Truthiness, as tested by \<open>if (v)\<close>, \<open>!v\<close>, \<open>a || b\<close> and \<open>a && b\<close>.\<close>

fun truthy :: "jsval \<Rightarrow> bool" where
  "truthy Undefined = False"
| "truthy Null = False"
| "truthy (Bool b) = b"
| "truthy (Num n) = (n \<noteq> NaN \<and> n \<noteq> Fin 0)"
| "truthy (Str s) = (s \<noteq> [])"
| "truthy (Arr xs) = True"
| "truthy (Obj kvs) = True"

definition js_or :: "jsval \<Rightarrow> jsval \<Rightarrow> jsval" where
  "js_or a b = (if truthy a then a else b)"

text \<open>
  Reading a property \<open>v.k\<close>, also by destructuring \<open>const {k} = v\<close>. On \<open>null\<close> and
  \<open>undefined\<close> it throws a TypeError (the result \<open>None\<close>); on an object it gives the own
  property or \<open>undefined\<close>; on the other values it gives \<open>undefined\<close> for every property
  name the host reads (none of them is \<open>length\<close> or an index).
\<close>

fun get_prop :: "jsval \<Rightarrow> string \<Rightarrow> jsval option" where
  "get_prop Undefined k = None"
| "get_prop Null k = None"
| "get_prop (Obj kvs) k = Some (case map_of kvs k of None \<Rightarrow> Undefined | Some v \<Rightarrow> v)"
| "get_prop v k = Some Undefined"

text \<open>
  Writing a property keeps the position of an existing key and appends a new one;
  spreading \<open>{...a, ...b}\<close> writes the properties of \<open>b\<close> into \<open>a\<close> in order.
\<close>

definition set_prop :: "string \<Rightarrow> jsval \<Rightarrow> (string \<times> jsval) list \<Rightarrow> (string \<times> jsval) list" where
  "set_prop k v kvs = AList.update k v kvs"

definition spread :: "(string \<times> jsval) list \<Rightarrow> (string \<times> jsval) list \<Rightarrow> (string \<times> jsval) list" where
  "spread a b = foldl (\<lambda>acc (k, v). set_prop k v acc) a b"

text \<open>
  Numeric comparison against a finite constant, as \<open>>=\<close>, \<open><=\<close>, \<open><\<close> and \<open>>\<close> decide it on
  doubles: every comparison with NaN is false.
\<close>

fun num_ge :: "number \<Rightarrow> rat \<Rightarrow> bool" where
  "num_ge NaN c = False"
| "num_ge NInf c = False"
| "num_ge (Fin r) c = (c \<le> r)"
| "num_ge PInf c = True"

fun num_le :: "number \<Rightarrow> rat \<Rightarrow> bool" where
  "num_le NaN c = False"
| "num_le NInf c = True"
| "num_le (Fin r) c = (r \<le> c)"
| "num_le PInf c = False"

fun num_lt :: "number \<Rightarrow> rat \<Rightarrow> bool" where
  "num_lt NaN c = False"
| "num_lt NInf c = True"
| "num_lt (Fin r) c = (r < c)"
| "num_lt PInf c = False"

fun num_gt :: "number \<Rightarrow> rat \<Rightarrow> bool" where
  "num_gt NaN c = False"
| "num_gt NInf c = False"
| "num_gt (Fin r) c = (c < r)"
| "num_gt PInf c = True"

text \<open>
  The conversions ToNumber (the operand of such a comparison is converted by it first) and
  ToString (a value inside a template literal). Both are fixed on \<open>undefined\<close>, \<open>null\<close>
  and booleans; a string is parsed as a number and a number is printed, by two functions
  of the language that are parameters here. An array or an object is first converted to a
  primitive by its \<open>toString\<close> method. For a value that \<open>JSON.parse\<close> has built this yields a
  string, or it throws a TypeError (the result \<open>None\<close>), as for \<open>{"toString": 1}\<close>, whose
  own \<open>toString\<close> is not callable; which of the two is the third parameter.
\<close>

record conversions =
  stringToNumber :: "string \<Rightarrow> number"
  numberToString :: "number \<Rightarrow> string"
  toPrimitive :: "jsval \<Rightarrow> string option"

fun to_number :: "conversions \<Rightarrow> jsval \<Rightarrow> number option" where
  "to_number c Undefined = Some NaN"
| "to_number c Null = Some (Fin 0)"
| "to_number c (Bool b) = Some (Fin (if b then 1 else 0))"
| "to_number c (Num n) = Some n"
| "to_number c (Str s) = Some (stringToNumber c s)"
| "to_number c v = map_option (stringToNumber c) (toPrimitive c v)"

fun to_string :: "conversions \<Rightarrow> jsval \<Rightarrow> string option" where
  "to_string c Undefined = Some ''undefined''"
| "to_string c Null = Some ''null''"
| "to_string c (Bool b) = Some (if b then ''true'' else ''false'')"
| "to_string c (Num n) = Some (numberToString c n)"
| "to_string c (Str s) = Some s"
| "to_string c v = toPrimitive c v"

definition num_of_nat :: "nat \<Rightarrow> jsval" where
  "num_of_nat n = Num (Fin (of_nat n))"

section \<open>Host: the Stream Deck module of the main process\<close>

subsection \<open>Connections, environment and effects\<close>

text \<open>
  A connection is a \<open>ws\<close> socket object, known to the module by its identity. Of the
  socket the module reads \<open>readyState\<close> and \<open>authenticated\<close> (a property the module never
  sets, so it is normally absent: \<open>None\<close>) and calls \<open>send\<close>, which may throw.
\<close>

datatype ready_state = CONNECTING | OPEN | CLOSING | CLOSED

record socket =
  readyState :: ready_state
  authenticated :: "bool option"
  sendThrows :: bool

text \<open>
  What the surroundings supply while one event is handled: the clock (\<open>Date.now()\<close> and
  \<open>new Date().toISOString()\<close>, read once per event), the sockets as they are at that
  moment, the conversions, and the answers of the renderer
  to the queries some handlers await (\<open>None\<close>: the call throws or the promise rejects).
  A handler that awaits is modelled as running to its end within the event.
\<close>

record env =
  now :: nat
  isoNow :: string
  sock :: "nat \<Rightarrow> socket"
  conv :: conversions
  ipcReady :: bool
  invokeLoopState :: "jsval option"
  invokeMuteState :: "jsval option"
  hotkeyTabsResult :: "jsval option"
  hotkeyContentResult :: "jsval \<Rightarrow> jsval option"

text \<open>
  The observable effects of handling an event: a message object handed to \<open>ws.send\<close> on
  a connection without an exception, a message to the renderer
  (\<open>mainWindow.webContents.send\<close>, assumed not to throw), a call of \<open>ws.close\<close> with code
  and reason, the closing of the server object, and the rejection of the promise of an
  asynchronous handler, which nothing in the module catches.
\<close>

datatype effect =
    Sent nat jsval
  | Ipc string jsval
  | CloseCall nat nat string
  | ServerClose
  | UnhandledRejection

subsection \<open>Module state\<close>

text \<open>
  \<open>streamDeckState\<close> is the canonical control-surface state. The fields the command
  handlers write take their value from the payload unchanged, so they hold arbitrary
  JavaScript values.
\<close>

record sd_state =
  sd_connected :: bool
  connectionCount :: nat
  lastActivity :: "nat option"
  currentSong :: jsval
  isPlaying :: jsval
  volume :: jsval
  position :: jsval
  duration :: jsval
  loopEnabled :: jsval
  muteEnabled :: jsval

definition default_state :: sd_state where
  "default_state =
     \<lparr> sd_connected = False, connectionCount = 0, lastActivity = None,
       currentSong = Null, isPlaying = Bool False, volume = Num (Fin 1),
       position = Num (Fin 0), duration = Num (Fin 0),
       loopEnabled = Bool False, muteEnabled = Bool False \<rparr>"

text \<open>
  The module variables: the server object (\<open>None\<close> for \<open>undefined\<close>/\<open>null\<close>, otherwise
  the port it was created for), the set of connections in insertion order, the port
  setting and the state.
\<close>

record host =
  wsServer :: "nat option"
  activeConnections :: "nat list"
  serverPort :: nat
  streamDeckState :: sd_state

definition initial_host :: host where
  "initial_host =
     \<lparr> wsServer = None, activeConnections = [], serverPort = 8888,
       streamDeckState = default_state \<rparr>"

text \<open>The state as the object that \<open>{...streamDeckState}\<close> spreads.\<close>

definition state_props :: "sd_state \<Rightarrow> (string \<times> jsval) list" where
  "state_props st =
     [ (''connected'', Bool (sd_connected st)),
       (''connectionCount'', num_of_nat (connectionCount st)),
       (''lastActivity'', (case lastActivity st of None \<Rightarrow> Null | Some t \<Rightarrow> num_of_nat t)),
       (''currentSong'', currentSong st),
       (''isPlaying'', isPlaying st),
       (''volume'', volume st),
       (''position'', position st),
       (''duration'', duration st),
       (''loopEnabled'', loopEnabled st),
       (''muteEnabled'', muteEnabled st) ]"

subsection \<open>Sending\<close>

text \<open>
  \<open>sendMessage\<close> sends only on an open socket and swallows an exception of \<open>send\<close>.
\<close>

definition sendMessage :: "env \<Rightarrow> nat \<Rightarrow> jsval \<Rightarrow> effect list" where
  "sendMessage e ws message =
     (if readyState (sock e ws) = OPEN then
        (if sendThrows (sock e ws) then [] else [Sent ws message])
      else [])"

text \<open>
  \<open>sendActionResponse(ws, action, success, message = null, errorCode = null, payload = {})\<close>
  builds the response envelope and sends it. The name of the response is
  \<open>`${action}Response`\<close> for a truthy action and \<open>"errorResponse"\<close> otherwise; the template
  literal converts the action to a string, which throws for some values (the result
  \<open>None\<close>, with nothing sent). \<open>action_response\<close> is the envelope for a given name.
\<close>

definition action_response ::
  "env \<Rightarrow> string \<Rightarrow> bool \<Rightarrow> jsval \<Rightarrow> jsval \<Rightarrow> (string \<times> jsval) list \<Rightarrow> jsval" where
  "action_response e name success message errorCode payload =
     (let p0 = spread [(''success'', Bool success)] payload;
          p1 = (if \<not> success \<and> truthy message then
                  set_prop ''error''
                    (Obj [(''message'', message),
                          (''code'', js_or errorCode (Str ''UNKNOWN_ERROR''))]) p0
                else p0)
      in Obj [ (''version'', Str ''1.0''),
               (''timestamp'', Str (isoNow e)),
               (''source'', Str ''mxvoice-streamdeck''),
               (''action'', Str name),
               (''payload'', Obj p1) ])"

definition sendActionResponse ::
  "env \<Rightarrow> nat \<Rightarrow> jsval \<Rightarrow> bool \<Rightarrow> jsval \<Rightarrow> jsval \<Rightarrow> (string \<times> jsval) list
     \<Rightarrow> effect list option" where
  "sendActionResponse e ws action success message errorCode payload =
     (case (if truthy action
            then map_option (\<lambda>a. a @ ''Response'') (to_string (conv e) action)
            else Some ''errorResponse'') of
        None \<Rightarrow> None
      | Some name \<Rightarrow>
          Some (sendMessage e ws (action_response e name success message errorCode payload)))"

definition broadcastMessage :: "env \<Rightarrow> jsval \<Rightarrow> host \<Rightarrow> effect list" where
  "broadcastMessage e message s =
     concat (map (\<lambda>ws. if authenticated (sock e ws) \<noteq> Some False
                        then sendMessage e ws message else [])
                 (activeConnections s))"

text \<open>
  \<open>sendStateUpdate\<close> refreshes the loop and mute flags from the renderer when it can and
  sends the whole state to one connection. The second query is not made when the first
  one throws; a query result counts only if it is truthy and has a truthy \<open>success\<close>.
\<close>

definition refresh_flag ::
  "jsval \<Rightarrow> string \<Rightarrow> jsval \<Rightarrow> jsval" where
  "refresh_flag result k current =
     (if truthy result \<and> truthy (case get_prop result ''success'' of None \<Rightarrow> Undefined | Some v \<Rightarrow> v)
      then (case get_prop result k of None \<Rightarrow> Undefined | Some v \<Rightarrow> v)
      else current)"

definition sendStateUpdate :: "env \<Rightarrow> nat \<Rightarrow> host \<Rightarrow> host \<times> effect list" where
  "sendStateUpdate e ws s =
     (let st = streamDeckState s;
          st' =
            (if ipcReady e then
               (case invokeLoopState e of
                  None \<Rightarrow> st
                | Some loopResult \<Rightarrow>
                    (let st1 = st\<lparr> loopEnabled :=
                                      refresh_flag loopResult ''loopEnabled'' (loopEnabled st) \<rparr>
                     in case invokeMuteState e of
                          None \<Rightarrow> st1
                        | Some muteResult \<Rightarrow>
                            st1\<lparr> muteEnabled :=
                                    refresh_flag muteResult ''muteEnabled'' (muteEnabled st1) \<rparr>))
             else st);
          state =
            Obj [ (''version'', Str ''1.0''),
                  (''timestamp'', Str (isoNow e)),
                  (''source'', Str ''mxvoice-streamdeck''),
                  (''action'', Str ''connectionStateUpdate''),
                  (''payload'',
                     Obj (spread (state_props st')
                            [ (''connected'', Bool True),
                              (''loopEnabled'', loopEnabled st'),
                              (''muteEnabled'', muteEnabled st'),
                              (''serverPort'', num_of_nat (serverPort s)),
                              (''connectionTime'', num_of_nat (now e)) ])) ]
      in (s\<lparr> streamDeckState := st' \<rparr>, sendMessage e ws state))"

subsection \<open>Action handlers\<close>

text \<open>
  Every handler is an \<open>async\<close> function of the socket and the payload. Its body runs
  inside the call up to the first \<open>await\<close>, and an exception in it rejects the promise
  the call returns instead of reaching the caller: \<open>in_async\<close> is a call that may throw,
  made in such a body outside any \<open>try\<close>, and \<open>in_try\<close> is one made inside a \<open>try\<close>
  whose \<open>catch\<close> has the given effects. Destructuring the payload throws when the payload
  is \<open>null\<close>, and so does a comparison whose operand has no primitive value.
\<close>

type_synonym handler = "env \<Rightarrow> nat \<Rightarrow> jsval \<Rightarrow> host \<Rightarrow> host \<times> effect list"

definition in_async :: "effect list option \<Rightarrow> effect list" where
  "in_async r = (case r of None \<Rightarrow> [UnhandledRejection] | Some out \<Rightarrow> out)"

definition in_try :: "effect list option \<Rightarrow> effect list \<Rightarrow> effect list" where
  "in_try r caught = (case r of None \<Rightarrow> caught | Some out \<Rightarrow> out)"

definition stamp :: "env \<Rightarrow> string \<times> jsval" where
  "stamp e = (''timestamp'', num_of_nat (now e))"

definition pauseTrack :: handler where
  "pauseTrack e ws payload s =
     (s, Ipc ''streamdeck_pause'' Undefined
         # in_async (sendActionResponse e ws (Str ''pauseTrack'') True Null Null
                       [(''action'', Str ''pause_sent''), stamp e]))"

definition playTrack :: handler where
  "playTrack e ws payload s =
     (case (get_prop payload ''songId'', get_prop payload ''filePath'') of
        (Some songId, Some filePath) \<Rightarrow>
          (if truthy filePath then
             (s, Ipc ''streamdeck_play_file'' filePath
                 # in_async (sendActionResponse e ws (Str ''playTrack'') True Null Null
                     [(''action'', Str ''play_file''), (''filePath'', filePath), stamp e]))
           else if truthy songId then
             (s, Ipc ''streamdeck_play_song'' songId
                 # in_async (sendActionResponse e ws (Str ''playTrack'') True Null Null
                     [(''action'', Str ''play_song''), (''songId'', songId), stamp e]))
           else
             (s, Ipc ''streamdeck_resume'' Undefined
                 # in_async (sendActionResponse e ws (Str ''playTrack'') True Null Null
                     [(''action'', Str ''smart_play''),
                      (''note'', Str ''Smart play command sent - resumes paused audio or plays selected song''),
                      stamp e])))
      | _ \<Rightarrow> (s, [UnhandledRejection]))"

definition stopTrack :: handler where
  "stopTrack e ws payload s =
     (s, Ipc ''streamdeck_stop'' Undefined
         # in_async (sendActionResponse e ws (Str ''stopTrack'') True Null Null
                       [(''action'', Str ''stop_sent''), stamp e]))"

text \<open>
  \<open>setVolume\<close> and \<open>seekToPosition\<close> validate by comparison, \<open>volume >= 0 && volume <= 1\<close>
  and \<open>position >= 0\<close>, which converts the value to a number and does not look at its type.
\<close>

definition setVolume :: handler where
  "setVolume e ws payload s =
     (case get_prop payload ''volume'' of
        None \<Rightarrow> (s, [UnhandledRejection])
      | Some v \<Rightarrow>
          (case to_number (conv e) v of
             None \<Rightarrow> (s, [UnhandledRejection])
           | Some n \<Rightarrow>
               (if num_ge n 0 \<and> num_le n 1 then
                  (s\<lparr> streamDeckState := (streamDeckState s)\<lparr> volume := v \<rparr> \<rparr>,
                   Ipc ''streamdeck_set_volume'' v
                     # in_async (sendActionResponse e ws (Str ''setVolume'') True Null Null
                                   [(''volume'', v), stamp e]))
                else
                  (s, in_async (sendActionResponse e ws (Str ''setVolume'') False
                                  (Str ''Volume must be between 0 and 1'')
                                  (Str ''INVALID_VOLUME'') [])))))"

definition seekToPosition :: handler where
  "seekToPosition e ws payload s =
     (case get_prop payload ''position'' of
        None \<Rightarrow> (s, [UnhandledRejection])
      | Some p \<Rightarrow>
          (case to_number (conv e) p of
             None \<Rightarrow> (s, [UnhandledRejection])
           | Some n \<Rightarrow>
               (if num_ge n 0 then
                  (s\<lparr> streamDeckState := (streamDeckState s)\<lparr> position := p \<rparr> \<rparr>,
                   Ipc ''streamdeck_seek'' p
                     # in_async (sendActionResponse e ws (Str ''seekToPosition'') True Null Null
                                   [(''position'', p), stamp e]))
                else
                  (s, in_async (sendActionResponse e ws (Str ''seekToPosition'') False
                                  (Str ''Position must be >= 0'')
                                  (Str ''INVALID_POSITION'') [])))))"

definition toggleLoop :: handler where
  "toggleLoop e ws payload s =
     (case get_prop payload ''enabled'' of
        None \<Rightarrow> (s, [UnhandledRejection])
      | Some enabled \<Rightarrow>
          (let s' = (if enabled \<noteq> Undefined
                     then s\<lparr> streamDeckState := (streamDeckState s)\<lparr> loopEnabled := enabled \<rparr> \<rparr>
                     else s)
           in (s', Ipc ''streamdeck_toggle_loop'' enabled
                     # in_async (sendActionResponse e ws (Str ''toggleLoop'') True Null Null
                         [(''loopEnabled'', loopEnabled (streamDeckState s')), stamp e]))))"

definition toggleMute :: handler where
  "toggleMute e ws payload s =
     (case get_prop payload ''enabled'' of
        None \<Rightarrow> (s, [UnhandledRejection])
      | Some enabled \<Rightarrow>
          (let s' = (if enabled \<noteq> Undefined
                     then s\<lparr> streamDeckState := (streamDeckState s)\<lparr> muteEnabled := enabled \<rparr> \<rparr>
                     else s)
           in (s', Ipc ''streamdeck_toggle_mute'' enabled
                     # in_async (sendActionResponse e ws (Str ''toggleMute'') True Null Null
                         [(''muteEnabled'', muteEnabled (streamDeckState s')), stamp e]))))"

definition getState :: handler where
  "getState e ws payload s = sendStateUpdate e ws s"

text \<open>
  The two hotkey queries wrap their whole body in \<open>try\<close>/\<open>catch\<close>, so a failing query,
  a \<open>null\<close> payload or a tab number without a primitive value ends in the error response
  of the \<open>catch\<close> block (\<open>failed\<close>) and not in a rejection. The tab number is compared
  (\<open>tabNumber < 1 || tabNumber > 5\<close>) and then written into the script of the query by a
  template literal.
\<close>

definition getHotkeyTabs :: handler where
  "getHotkeyTabs e ws payload s =
     (let failed = in_async (sendActionResponse e ws (Str ''getHotkeyTabs'') False
                     (Str ''Failed to get hotkey tabs'') (Str ''HOTKEY_FETCH_ERROR'') [])
      in case hotkeyTabsResult e of
           None \<Rightarrow> (s, failed)
         | Some hotkeyData \<Rightarrow>
             (case (get_prop hotkeyData ''success'', get_prop hotkeyData ''tabs'',
                    get_prop hotkeyData ''activeTab'', get_prop hotkeyData ''error'') of
                (Some success, Some tabs, Some activeTab, Some err) \<Rightarrow>
                  (if truthy success then
                     (s, in_try (sendActionResponse e ws (Str ''getHotkeyTabs'') True Null Null
                           [(''tabs'', js_or tabs (Arr [])),
                            (''activeTab'', js_or activeTab (Num (Fin 1))),
                            stamp e]) failed)
                   else
                     (s, in_try (sendActionResponse e ws (Str ''getHotkeyTabs'') False
                           (js_or err (Str ''Failed to get hotkey tabs''))
                           (Str ''HOTKEY_FETCH_ERROR'') []) failed))
              | _ \<Rightarrow> (s, failed)))"

definition getHotkeyTabContent :: handler where
  "getHotkeyTabContent e ws payload s =
     (let failed = in_async (sendActionResponse e ws (Str ''getHotkeyTabContent'') False
                     (Str ''Failed to get hotkey tab content'')
                     (Str ''HOTKEY_CONTENT_FETCH_ERROR'') []);
          invalid = in_try (sendActionResponse e ws (Str ''getHotkeyTabContent'') False
                      (Str ''Tab number must be between 1 and 5'')
                      (Str ''INVALID_TAB_NUMBER'') []) failed
      in case get_prop payload ''tabNumber'' of
           None \<Rightarrow> (s, failed)
         | Some tabNumber \<Rightarrow>
             (if \<not> truthy tabNumber then (s, invalid)
              else
                (case to_number (conv e) tabNumber of
                   None \<Rightarrow> (s, failed)
                 | Some n \<Rightarrow>
                     (if num_lt n 1 \<or> num_gt n 5 then (s, invalid)
                      else
                        (case to_string (conv e) tabNumber of
                           None \<Rightarrow> (s, failed)
                         | Some tabText \<Rightarrow>
                             (case hotkeyContentResult e tabNumber of
                                None \<Rightarrow> (s, failed)
                              | Some hotkeyContent \<Rightarrow>
                                  (case (get_prop hotkeyContent ''success'',
                                         get_prop hotkeyContent ''tabName'',
                                         get_prop hotkeyContent ''hotkeys'',
                                         get_prop hotkeyContent ''songs'',
                                         get_prop hotkeyContent ''error'') of
                                     (Some success, Some tabName, Some hotkeys, Some songs, Some err) \<Rightarrow>
                                       (if truthy success then
                                          (s, in_try (sendActionResponse e ws
                                                (Str ''getHotkeyTabContent'') True Null Null
                                                [(''tabNumber'', tabNumber),
                                                 (''tabName'', js_or tabName (Str (''Tab '' @ tabText))),
                                                 (''hotkeys'', js_or hotkeys (Obj [])),
                                                 (''songs'', js_or songs (Obj [])),
                                                 stamp e]) failed)
                                        else
                                          (s, in_try (sendActionResponse e ws
                                                (Str ''getHotkeyTabContent'') False
                                                (js_or err (Str ''Failed to get hotkey content''))
                                                (Str ''HOTKEY_CONTENT_FETCH_ERROR'') []) failed))
                                   | _ \<Rightarrow> (s, failed))))))))"

text \<open>
  The dispatch table \<open>actionHandlers\<close>, a \<open>Map\<close> filled once by \<open>setupActionHandlers\<close>.
  Only a string can equal one of its keys.
\<close>

definition actionHandlers :: "jsval \<Rightarrow> handler option" where
  "actionHandlers action =
     (case action of
        Str name \<Rightarrow>
          map_of
            [ (''pauseTrack'', pauseTrack),
              (''playTrack'', playTrack),
              (''stopTrack'', stopTrack),
              (''setVolume'', setVolume),
              (''seekToPosition'', seekToPosition),
              (''toggleLoop'', toggleLoop),
              (''toggleMute'', toggleMute),
              (''getState'', getState),
              (''getHotkeyTabs'', getHotkeyTabs),
              (''getHotkeyTabContent'', getHotkeyTabContent) ] name
      | _ \<Rightarrow> None)"

subsection \<open>Inbound messages\<close>

text \<open>
  \<open>handleActionCommand\<close> destructures the message, with \<open>{}\<close> as the default of an
  absent payload. The result \<open>None\<close> is an exception that leaves the function and that
  the caller catches: the TypeError of destructuring \<open>null\<close> or \<open>undefined\<close>, or that of
  the template literal \<open>`Unknown action: ${action}`\<close> for an action that has no string
  form. The \<open>try\<close>/\<open>catch\<close> around the call of the handler sees no exception, since the
  handlers are asynchronous.
\<close>

definition handleActionCommand :: "env \<Rightarrow> nat \<Rightarrow> jsval \<Rightarrow> host \<Rightarrow> (host \<times> effect list) option" where
  "handleActionCommand e ws message s =
     (case (get_prop message ''action'', get_prop message ''payload'') of
        (Some action, Some pl) \<Rightarrow>
          (let payload = (if pl = Undefined then Obj [] else pl) in
           if \<not> truthy action then
             map_option (Pair s)
               (sendActionResponse e ws Null False
                  (Str ''Action is required'') (Str ''MISSING_ACTION'') [])
           else
             (case actionHandlers action of
                None \<Rightarrow>
                  (case to_string (conv e) action of
                     None \<Rightarrow> None
                   | Some name \<Rightarrow>
                       map_option (Pair s)
                         (sendActionResponse e ws action False
                            (Str (''Unknown action: '' @ name)) (Str ''UNKNOWN_ACTION'') []))
              | Some handler \<Rightarrow> Some (handler e ws payload s)))
      | _ \<Rightarrow> None)"

text \<open>
  \<open>handleMessage\<close> receives the outcome of \<open>JSON.parse(data.toString())\<close>: the decoded
  value, or \<open>None\<close> when parsing throws. Everything after the parse runs inside the same
  \<open>try\<close>, so the TypeError of reading \<open>message.action\<close> of \<open>null\<close> and an exception
  that leaves \<open>handleActionCommand\<close> end in the same \<open>catch\<close> as a parse failure, after
  \<open>lastActivity\<close> has been written.
\<close>

definition parse_error_message :: jsval where
  "parse_error_message =
     Obj [ (''type'', Str ''error''),
           (''message'', Str ''Invalid message format''),
           (''code'', Str ''PARSE_ERROR'') ]"

definition unsupported_format_message :: jsval where
  "unsupported_format_message =
     Obj [ (''type'', Str ''error''),
           (''message'', Str ''Unknown message format. Please use action-based format.''),
           (''code'', Str ''UNSUPPORTED_FORMAT'') ]"

definition pong_message :: "env \<Rightarrow> jsval" where
  "pong_message e = Obj [ (''type'', Str ''pong''), (''timestamp'', num_of_nat (now e)) ]"

definition touch :: "env \<Rightarrow> host \<Rightarrow> host" where
  "touch e s = s\<lparr> streamDeckState := (streamDeckState s)\<lparr> lastActivity := Some (now e) \<rparr> \<rparr>"

definition handleMessage :: "env \<Rightarrow> nat \<Rightarrow> jsval option \<Rightarrow> host \<Rightarrow> host \<times> effect list" where
  "handleMessage e ws parsed s =
     (case parsed of
        None \<Rightarrow> (s, sendMessage e ws parse_error_message)
      | Some message \<Rightarrow>
          (let s1 = touch e s in
           case (get_prop message ''action'', get_prop message ''type'') of
             (Some action, Some type) \<Rightarrow>
               (if truthy action then
                  (case handleActionCommand e ws message s1 of
                     Some r \<Rightarrow> r
                   | None \<Rightarrow> (s1, sendMessage e ws parse_error_message))
                else if type = Str ''ping'' then
                  (s1, sendMessage e ws (pong_message e))
                else
                  (s1, sendMessage e ws unsupported_format_message))
           | _ \<Rightarrow> (s1, sendMessage e ws parse_error_message)))"

text \<open>
  The messages of one connection are handled in arrival order, each in the state the
  one before has left.
\<close>

fun handleMessages :: "env \<Rightarrow> nat \<Rightarrow> jsval option list \<Rightarrow> host \<Rightarrow> host \<times> effect list" where
  "handleMessages e ws [] s = (s, [])"
| "handleMessages e ws (m # ms) s =
     (let (s1, out1) = handleMessage e ws m s;
          (s2, out2) = handleMessages e ws ms s1
      in (s2, out1 @ out2))"

subsection \<open>The connection registry and the server\<close>

text \<open>
  \<open>startServer\<close> creates the \<open>WebSocketServer\<close> of the \<open>ws\<close> library, which is not part
  of the repository; its behaviour is the parameter \<open>bind\<close>. The constructor either
  returns a server that comes to listen, or throws (an invalid port, for example), or
  returns a server that fails to bind afterwards: the library reports a port in use
  (\<open>EADDRINUSE\<close>) by an \<open>error\<close> event on the server object once the constructor has
  returned. \<open>handleServerError\<close> is the listener of that event.
\<close>

datatype bind_outcome = Listening | CtorThrows string | ErrorEvent string

definition startServer :: "bind_outcome \<Rightarrow> host \<Rightarrow> bool \<times> host" where
  "startServer bind s =
     (if wsServer s \<noteq> None then (False, s)
      else (case bind of
              CtorThrows msg \<Rightarrow> (False, s)
            | _ \<Rightarrow> (True, s\<lparr> wsServer := Some (serverPort s) \<rparr>)))"

definition handleServerError :: "string \<Rightarrow> host \<Rightarrow> host" where
  "handleServerError msg s = s"

definition getServerStatus_running :: "host \<Rightarrow> bool" where
  "getServerStatus_running s = (wsServer s \<noteq> None)"

text \<open>
  \<open>Set.add\<close> and \<open>Set.delete\<close> on the registry. \<open>stopServer\<close> closes the open
  connections with code 1000, empties the registry, closes the server and resets the
  state; \<open>ws.close\<close> and \<open>wsServer.close\<close> are taken not to throw.
\<close>

definition set_add :: "nat \<Rightarrow> nat list \<Rightarrow> nat list" where
  "set_add ws conns = (if ws \<in> set conns then conns else conns @ [ws])"

definition set_delete :: "nat \<Rightarrow> nat list \<Rightarrow> nat list" where
  "set_delete ws conns = removeAll ws conns"

definition stopServer :: "env \<Rightarrow> host \<Rightarrow> bool \<times> host \<times> effect list" where
  "stopServer e s =
     (if wsServer s = None then (False, s, [])
      else
        (True,
         s\<lparr> activeConnections := [], wsServer := None, streamDeckState := default_state \<rparr>,
         map (\<lambda>ws. CloseCall ws 1000 ''Server shutting down'')
             (filter (\<lambda>ws. readyState (sock e ws) = OPEN) (activeConnections s))
           @ [ServerClose]))"

definition handleConnection :: "env \<Rightarrow> nat \<Rightarrow> host \<Rightarrow> host \<times> effect list" where
  "handleConnection e ws s =
     (let conns = set_add ws (activeConnections s);
          s1 = s\<lparr> activeConnections := conns,
                  streamDeckState := (streamDeckState s)
                    \<lparr> connectionCount := length conns, lastActivity := Some (now e) \<rparr> \<rparr>;
          (s2, out) = sendStateUpdate e ws s1
      in (s2\<lparr> streamDeckState := (streamDeckState s2)\<lparr> sd_connected := True \<rparr> \<rparr>, out))"

definition handleDisconnection :: "nat \<Rightarrow> host \<Rightarrow> host" where
  "handleDisconnection ws s =
     (let conns = set_delete ws (activeConnections s)
      in s\<lparr> activeConnections := conns,
            streamDeckState := (streamDeckState s)
              \<lparr> connectionCount := length conns, sd_connected := (length conns > 0) \<rparr> \<rparr>)"

definition handleConnectionError :: "nat \<Rightarrow> string \<Rightarrow> host \<Rightarrow> host" where
  "handleConnectionError ws msg s =
     (let conns = set_delete ws (activeConnections s)
      in s\<lparr> activeConnections := conns,
            streamDeckState := (streamDeckState s)
              \<lparr> connectionCount := length conns, sd_connected := (length conns > 0) \<rparr> \<rparr>)"

section \<open>Renderer: tab-switch notifications of the hotkeys module\<close>

text \<open>
  The hotkeys module tells the control surfaces about a switch of the hotkey tab from two
  places: the listener of Bootstrap's \<open>shown.bs.tab\<close> event and \<open>switchToHotkeyTab\<close>.
  Both share the marker \<open>_lastNotification\<close> (one record, overwritten by each emission)
  and the flag \<open>_programmaticSwitch\<close>. The \<open>signature\<close> string of the marker is only
  logged and is left out.
\<close>

record notification =
  fromTab :: "nat option"
  toTab :: nat
  timestamp :: nat

record hotkeys_module =
  lastNotification :: "notification option"
  programmaticSwitch :: bool

text \<open>
  What the renderer supplies: the clock, the active tab link of the document (\<open>None\<close>
  when there is none; otherwise its number and its \<open>textContent\<close>), whether the broadcast API of
  the preload script and the fallback IPC channel exist, the result of
  \<open>getHotkeyConfig()\<close> (\<open>None\<close> when it throws), and two functions of the language:
  \<open>String.prototype.trim\<close> and the decimal form of a number.
\<close>

record renderer =
  r_now :: nat
  r_isoNow :: string
  activeLink :: "(nat \<times> string) option"
  broadcastApi :: bool
  ipcRenderer :: bool
  hotkeyConfig :: "jsval option"
  r_trim :: "string \<Rightarrow> string"
  r_numberToString :: "number \<Rightarrow> string"

datatype hk_effect = Broadcast jsval | IpcFallback string jsval

text \<open>\<open>String.prototype.replace\<close> with a string pattern replaces the first occurrence.\<close>

fun replace_first :: "string \<Rightarrow> string \<Rightarrow> string \<Rightarrow> string" where
  "replace_first pat rep [] = (if pat = [] then rep else [])"
| "replace_first pat rep (c # cs) =
     (if take (length pat) (c # cs) = pat then rep @ drop (length pat) (c # cs)
      else c # replace_first pat rep cs)"

definition opt_num :: "nat option \<Rightarrow> jsval" where
  "opt_num n = (case n of None \<Rightarrow> Null | Some k \<Rightarrow> num_of_nat k)"

definition prop_or_undefined :: "(string \<times> jsval) list \<Rightarrow> string \<Rightarrow> jsval" where
  "prop_or_undefined kvs k = (case map_of kvs k of None \<Rightarrow> Undefined | Some v \<Rightarrow> v)"

text \<open>
  \<open>notifyHotkeyChange(action, hotkeyKey = null, additionalData = {})\<close> builds one
  \<open>hotkeyStateUpdate\<close> envelope and hands it to the broadcast API; without that API it
  falls back to an IPC message. The body is one \<open>try\<close>/\<open>catch\<close>: when
  \<open>getHotkeyConfig\<close> throws or returns \<open>null\<close>, nothing is sent.
\<close>

definition notifyHotkeyChange ::
  "renderer \<Rightarrow> string \<Rightarrow> string option \<Rightarrow> (string \<times> jsval) list \<Rightarrow> hk_effect list" where
  "notifyHotkeyChange r action hotkeyKey additionalData =
     (let activeTabNumber = (case activeLink r of None \<Rightarrow> 1 | Some (n, text) \<Rightarrow> n);
          cleanHotkeyKey =
            (case hotkeyKey of
               None \<Rightarrow> Null
             | Some k \<Rightarrow> if k = [] then Null else Str (replace_first ''_hotkey'' [] k));
          ownName =
            js_or (case activeLink r of None \<Rightarrow> Undefined | Some (n, text) \<Rightarrow> Str (r_trim r text))
                  (Str (''Tab '' @ r_numberToString r (Fin (of_nat activeTabNumber))));
          notificationData =
            spread [ (''tabNumber'', num_of_nat activeTabNumber),
                     (''tabName'', ownName),
                     (''action'', Str action),
                     (''hotkeyKey'', cleanHotkeyKey),
                     (''timestamp'', num_of_nat (r_now r)) ]
                   additionalData;
          tabName = prop_or_undefined notificationData ''tabName''
      in if broadcastApi r then
           (case hotkeyConfig r of
              None \<Rightarrow> []
            | Some currentConfig \<Rightarrow>
                (case get_prop currentConfig ''hotkeys'' of
                   None \<Rightarrow> []
                 | Some hotkeys \<Rightarrow>
                     [Broadcast
                        (Obj [ (''version'', Str ''1.0''),
                               (''timestamp'', Str (r_isoNow r)),
                               (''source'', Str ''mxvoice-streamdeck''),
                               (''action'', Str ''hotkeyStateUpdate''),
                               (''payload'',
                                  Obj (spread
                                         [ (''success'', Bool True),
                                           (''changedTab'', num_of_nat activeTabNumber),
                                           (''changedTabName'', tabName),
                                           (''changeAction'', Str action),
                                           (''hotkeyKey'', cleanHotkeyKey),
                                           (''hotkeys'', hotkeys),
                                           (''timestamp'', num_of_nat (r_now r)) ]
                                         (if action = ''tab-switched'' then
                                            [ (''fromTab'', prop_or_undefined additionalData ''fromTab''),
                                              (''toTab'', prop_or_undefined additionalData ''toTab''),
                                              (''fromTabName'',
                                                 js_or (prop_or_undefined additionalData ''fromTabName'') Null),
                                              (''toTabName'',
                                                 js_or (prop_or_undefined additionalData ''tabName'') tabName) ]
                                          else []))) ])]))
         else if ipcRenderer r then
           [IpcFallback (''hotkey-'' @ action) (Obj notificationData)]
         else [])"

text \<open>
  The duplicate check both paths make: the marker exists, carries the same pair of tabs
  and is younger than 500 ms.
\<close>

definition is_duplicate :: "hotkeys_module \<Rightarrow> nat option \<Rightarrow> nat \<Rightarrow> nat \<Rightarrow> bool" where
  "is_duplicate m from to t =
     (case lastNotification m of
        None \<Rightarrow> False
      | Some l \<Rightarrow> fromTab l = from \<and> toTab l = to \<and> int t - int (timestamp l) < 500)"

text \<open>
  The listener of \<open>shown.bs.tab\<close>, as installed by \<open>setupTabSwitchListeners\<close>. The event
  carries the tab shown (its number among the tab links and its \<open>textContent\<close>) and,
  when there is one, the tab left.
\<close>

record tab_event =
  target :: "nat \<times> string"
  relatedTarget :: "(nat \<times> string) option"

definition setupTabSwitchListeners :: "hotkeys_module \<Rightarrow> hotkeys_module" where
  "setupTabSwitchListeners m = m\<lparr> lastNotification := None \<rparr>"

definition shown_bs_tab :: "renderer \<Rightarrow> tab_event \<Rightarrow> hotkeys_module \<Rightarrow> hotkeys_module \<times> hk_effect list" where
  "shown_bs_tab r ev m =
     (if programmaticSwitch m then (m, [])
      else
        (let newTabNumber = fst (target ev);
             newTabName = js_or (Str (r_trim r (snd (target ev))))
                                (Str (r_numberToString r (Fin (of_nat newTabNumber))));
             fromTabNumber = map_option fst (relatedTarget ev);
             fromTabName = js_or (case relatedTarget ev of None \<Rightarrow> Undefined
                                  | Some (n, text) \<Rightarrow> Str (r_trim r text)) Null;
             now = r_now r
         in if is_duplicate m fromTabNumber newTabNumber now then (m, [])
            else
              (m\<lparr> lastNotification :=
                    Some \<lparr> fromTab = fromTabNumber, toTab = newTabNumber, timestamp = now \<rparr> \<rparr>,
               notifyHotkeyChange r ''tab-switched'' None
                 [ (''fromTab'', opt_num fromTabNumber),
                   (''toTab'', num_of_nat newTabNumber),
                   (''tabName'', newTabName),
                   (''fromTabName'', fromTabName) ])))"

text \<open>
  \<open>switchToHotkeyTab(tab)\<close> in its two parts. The call itself reads the active tab and
  makes the duplicate check; \<open>None\<close> is the early return, otherwise the tab is shown and
  a timer of 100 ms is started that remembers the tab that was active. The callback of
  that timer records the marker and emits, without a second check, if the tab differs
  from the one that was active; the flag it sets is cleared 200 ms later.
\<close>

definition switchToHotkeyTab :: "renderer \<Rightarrow> nat \<Rightarrow> hotkeys_module \<Rightarrow> (nat option) option" where
  "switchToHotkeyTab r tab m =
     (let currentTabNumber = map_option fst (activeLink r)
      in if is_duplicate m currentTabNumber tab (r_now r) then None
         else Some currentTabNumber)"

definition switchToHotkeyTab_timeout ::
  "renderer \<Rightarrow> nat option \<Rightarrow> nat \<Rightarrow> hotkeys_module \<Rightarrow> hotkeys_module \<times> hk_effect list" where
  "switchToHotkeyTab_timeout r currentTabNumber tab m =
     (let newTabName =
            js_or (case activeLink r of None \<Rightarrow> Undefined | Some (n, text) \<Rightarrow> Str text)
                  (Str (r_numberToString r (Fin (of_nat tab))))
      in if currentTabNumber \<noteq> Some tab then
           (m\<lparr> programmaticSwitch := True,
                lastNotification :=
                  Some \<lparr> fromTab = currentTabNumber, toTab = tab, timestamp = r_now r \<rparr> \<rparr>,
            notifyHotkeyChange r ''tab-switched'' None
              [ (''fromTab'', opt_num currentTabNumber),
                (''toTab'', num_of_nat tab),
                (''tabName'', newTabName) ])
         else (m, []))"

definition programmaticSwitch_expired :: "hotkeys_module \<Rightarrow> hotkeys_module" where
  "programmaticSwitch_expired m = m\<lparr> programmaticSwitch := False \<rparr>"

text \<open>
  A sequence of \<open>shown.bs.tab\<close> events, each with the time at which its listener runs,
  and the number of \<open>hotkeyStateUpdate\<close> envelopes among the effects.
\<close>

fun tab_events ::
  "renderer \<Rightarrow> (nat \<times> tab_event) list \<Rightarrow> hotkeys_module \<Rightarrow> hotkeys_module \<times> hk_effect list" where
  "tab_events r [] m = (m, [])"
| "tab_events r ((t, ev) # evs) m =
     (let (m1, out1) = shown_bs_tab (r\<lparr> r_now := t \<rparr>) ev m;
          (m2, out2) = tab_events r evs m1
      in (m2, out1 @ out2))"

fun is_hotkeyStateUpdate :: "hk_effect \<Rightarrow> bool" where
  "is_hotkeyStateUpdate (Broadcast msg) = (get_prop msg ''action'' = Some (Str ''hotkeyStateUpdate''))"
| "is_hotkeyStateUpdate (IpcFallback channel msg) = False"

definition broadcasts :: "hk_effect list \<Rightarrow> nat" where
  "broadcasts out = length (filter is_hotkeyStateUpdate out)"

section \<open>Notions used in the properties\<close>

text \<open>
  The error code a sent message carries: the \<open>code\<close> property of a bare
  \<open>{type: 'error', ...}\<close> message, or \<open>payload.error.code\<close> of a response envelope.
\<close>

fun has_code :: "string \<Rightarrow> effect \<Rightarrow> bool" where
  "has_code c (Sent ws msg) =
     (get_prop msg ''code'' = Some (Str c)
      \<or> (case get_prop msg ''payload'' of
            None \<Rightarrow> False
          | Some p \<Rightarrow>
              (case get_prop p ''error'' of
                 None \<Rightarrow> False
               | Some er \<Rightarrow> get_prop er ''code'' = Some (Str c))))"
| "has_code c eff = False"

text \<open>The range of a valid volume, \<open>0 \<le> v \<le> 1\<close>, on doubles.\<close>

fun in_unit_interval :: "number \<Rightarrow> bool" where
  "in_unit_interval (Fin r) = (0 \<le> r \<and> r \<le> 1)"
| "in_unit_interval n = False"

text \<open>
  The response envelope of a rejected command, as \<open>sendActionResponse\<close> builds it from
  an action name, an error message and an error code.
\<close>

definition failure_response :: "env \<Rightarrow> string \<Rightarrow> string \<Rightarrow> string \<Rightarrow> jsval" where
  "failure_response e action message code =
     Obj [ (''version'', Str ''1.0''),
           (''timestamp'', Str (isoNow e)),
           (''source'', Str ''mxvoice-streamdeck''),
           (''action'', Str (action @ ''Response'')),
           (''payload'',
              Obj [ (''success'', Bool False),
                    (''error'', Obj [(''message'', Str message), (''code'', Str code)]) ]) ]"

text \<open>
  A connection on which a message handed to \<open>sendMessage\<close> (directly or through
  \<open>broadcastMessage\<close>) is delivered.
\<close>

definition deliverable :: "env \<Rightarrow> nat \<Rightarrow> bool" where
  "deliverable e ws =
     (authenticated (sock e ws) \<noteq> Some False
      \<and> readyState (sock e ws) = OPEN
      \<and> \<not> sendThrows (sock e ws))"

text \<open>
  The registry and the state agree: the registry holds no connection twice (it is a
  \<open>Set\<close>), \<open>connectionCount\<close> is its size and \<open>connected\<close> says whether it is non-empty.
\<close>

definition registry_consistent :: "host \<Rightarrow> bool" where
  "registry_consistent s =
     (distinct (activeConnections s)
      \<and> connectionCount (streamDeckState s) = card (set (activeConnections s))
      \<and> sd_connected (streamDeckState s) = (card (set (activeConnections s)) > 0))"

text \<open>
  A concrete environment and host for the examples: connections 1, 2 and 3 are open,
  connection 4 is closed, no renderer query succeeds; the host has a running server and
  has accepted connection 1.
\<close>

definition example_env :: env where
  "example_env =
     \<lparr> now = 1700000000000,
       isoNow = ''2023-11-14T22:13:20.000Z'',
       sock = (\<lambda>ws. \<lparr> readyState = (if ws = 4 then CLOSED else OPEN),
                       authenticated = None, sendThrows = False \<rparr>),
       conv = \<lparr> stringToNumber = (\<lambda>s. NaN), numberToString = (\<lambda>n. ''0''),
                toPrimitive = (\<lambda>v. None) \<rparr>,
       ipcReady = False,
       invokeLoopState = None,
       invokeMuteState = None,
       hotkeyTabsResult = None,
       hotkeyContentResult = (\<lambda>t. None) \<rparr>"

definition example_host :: host where
  "example_host = fst (handleConnection example_env 1 (snd (startServer Listening initial_host)))"

definition example_renderer :: renderer where
  "example_renderer =
     \<lparr> r_now = 0,
       r_isoNow = ''2023-11-14T22:13:20.000Z'',
       activeLink = Some (3, ''Tab 3''),
       broadcastApi = True,
       ipcRenderer = False,
       hotkeyConfig = Some (Obj [(''hotkeys'', Obj [])]),
       r_trim = (\<lambda>s. s),
       r_numberToString = (\<lambda>n. ''0'') \<rparr>"

definition fresh_module :: hotkeys_module where
  "fresh_module = setupTabSwitchListeners \<lparr> lastNotification = None, programmaticSwitch = False \<rparr>"

definition tab_2_to_3 :: tab_event where
  "tab_2_to_3 = \<lparr> target = (3, ''Tab 3''), relatedTarget = Some (2, ''Tab 2'') \<rparr>"

definition tab_3_to_2 :: tab_event where
  "tab_3_to_2 = \<lparr> target = (2, ''Tab 2''), relatedTarget = Some (3, ''Tab 3'') \<rparr>"

section \<open>Properties of the reconnection engine\<close>

lemma scheduleReconnect_fast:
  "reconnectAttempts s < maxReconnectAttempts \<Longrightarrow>
   scheduleReconnect s =
     s\<lparr> reconnectAttempts := reconnectAttempts s + 1,
        reconnectTimer := Some (min (currentReconnectDelay s) maxReconnectDelay),
        slowReconnectTimer := None,
        currentReconnectDelay :=
          min (currentReconnectDelay s * reconnectBackoffMultiplier) maxReconnectDelay \<rparr>"
  by (simp add: scheduleReconnect_def clearReconnectTimers_def Let_def)

lemma scheduleReconnect_slow:
  "\<not> reconnectAttempts s < maxReconnectAttempts \<Longrightarrow>
   scheduleReconnect s =
     s\<lparr> reconnectTimer := None, slowReconnectTimer := Some slowReconnectDelay \<rparr>"
  by (simp add: scheduleReconnect_def clearReconnectTimers_def startSlowReconnect_def Let_def)

lemma handleWebSocketClose_fast:
  "code \<noteq> 1000 \<Longrightarrow> reconnectAttempts s < maxReconnectAttempts \<Longrightarrow>
   handleWebSocketClose code s =
     s\<lparr> isConnected := False, websocket := None, pingTimer := None,
        reconnectAttempts := reconnectAttempts s + 1,
        reconnectTimer := Some (min (currentReconnectDelay s) maxReconnectDelay),
        slowReconnectTimer := None,
        currentReconnectDelay :=
          min (currentReconnectDelay s * reconnectBackoffMultiplier) maxReconnectDelay \<rparr>"
  by (simp add: handleWebSocketClose_def stopPingTimer_def scheduleReconnect_fast Let_def)

lemma handleWebSocketClose_slow:
  "code \<noteq> 1000 \<Longrightarrow> \<not> reconnectAttempts s < maxReconnectAttempts \<Longrightarrow>
   handleWebSocketClose code s =
     s\<lparr> isConnected := False, websocket := None, pingTimer := None,
        reconnectTimer := None, slowReconnectTimer := Some slowReconnectDelay \<rparr>"
  by (simp add: handleWebSocketClose_def stopPingTimer_def scheduleReconnect_slow Let_def)

lemma handleWebSocketClose_clean:
  "handleWebSocketClose 1000 s = s\<lparr> isConnected := False, websocket := None, pingTimer := None \<rparr>"
  by (simp add: handleWebSocketClose_def stopPingTimer_def Let_def)

text \<open>
  Clamping the stored delay after every multiplication gives the same timer delays as
  clamping the unclamped product once: the multiplier is at least 1.
\<close>

lemma clamp_twice:
  fixes x :: rat
  shows "min (min x maxReconnectDelay * reconnectBackoffMultiplier) maxReconnectDelay
         = min (x * reconnectBackoffMultiplier) maxReconnectDelay"
proof (cases "x \<le> maxReconnectDelay")
  case True
  then show ?thesis by (simp add: min_def)
next
  case False
  then have "maxReconnectDelay * (3/2) < x * (3/2)"
    by simp
  moreover have "maxReconnectDelay \<le> maxReconnectDelay * (3/2)"
    by (simp add: maxReconnectDelay_def)
  ultimately show ?thesis using False
    by (simp add: min_def reconnectBackoffMultiplier_def)
qed

lemma clamp_step:
  "min (min (d * reconnectBackoffMultiplier ^ i) maxReconnectDelay * reconnectBackoffMultiplier)
       maxReconnectDelay
   = min (d * reconnectBackoffMultiplier ^ Suc i) maxReconnectDelay"
  by (simp add: clamp_twice mult.assoc power_commutes)

text \<open>
  The rounds of a run in the fast regime: round \<open>i\<close> (counted from 0) is attempt
  \<open>reconnectAttempts s + i + 1\<close> and is scheduled after the clamped \<open>i\<close>-fold multiple
  of the delay the run started with.
\<close>

lemma retry_run_fast:
  "code \<noteq> 1000 \<Longrightarrow> reconnectAttempts s + k \<le> maxReconnectAttempts \<Longrightarrow>
   currentReconnectDelay s = min (d * reconnectBackoffMultiplier ^ j) maxReconnectDelay \<Longrightarrow>
   retry_run code w k s =
     map (\<lambda>i. (reconnectAttempts s + i + 1,
                Some (min (d * reconnectBackoffMultiplier ^ (j + i)) maxReconnectDelay)))
         [0..<k]"
proof (induction k arbitrary: s j)
  case 0
  then show ?case by simp
next
  case (Suc k)
  let ?s1 = "handleWebSocketClose code s"
  let ?s' = "handleWebSocketError (connectToMxVoice (Some w) ?s1)"
  have lt: "reconnectAttempts s < maxReconnectAttempts" using Suc.prems(2) by simp
  have s1: "reconnectAttempts ?s1 = reconnectAttempts s + 1"
           "reconnectTimer ?s1 = Some (min (d * reconnectBackoffMultiplier ^ j) maxReconnectDelay)"
    using Suc.prems(1,3) lt by (simp_all add: handleWebSocketClose_fast)
  have a: "reconnectAttempts ?s' = reconnectAttempts s + 1"
    using Suc.prems(1) lt
    by (simp add: handleWebSocketClose_fast connectToMxVoice_def handleWebSocketError_def)
  have b: "currentReconnectDelay ?s' =
             min (d * reconnectBackoffMultiplier ^ Suc j) maxReconnectDelay"
    using Suc.prems(1,3) lt
    by (simp add: handleWebSocketClose_fast connectToMxVoice_def handleWebSocketError_def
          clamp_step del: power_Suc)
  have "retry_run code w k ?s' =
     map (\<lambda>i. (reconnectAttempts ?s' + i + 1,
                Some (min (d * reconnectBackoffMultiplier ^ (Suc j + i)) maxReconnectDelay)))
         [0..<k]"
    using Suc.prems(2) a by (intro Suc.IH[OF Suc.prems(1) _ b]) simp
  then show ?case
    using s1 a
    by (simp add: Let_def upt_conv_Cons map_Suc_upt[symmetric] o_def del: upt_Suc power_Suc)
qed

lemma first_ten_delays:
  "map (\<lambda>i. Some (min (reconnectDelay * reconnectBackoffMultiplier ^ i) maxReconnectDelay))
       [0..<10]
   = map Some [3000, 4500, 6750, 10125, 30375 / 2, 91125 / 4, 30000, 30000, 30000, 30000]"
  by (simp add: reconnectDelay_def reconnectBackoffMultiplier_def maxReconnectDelay_def
        upt_rec[of _ "numeral n" for n] upt_rec[of _ "Suc n" for n] power_divide)

text \<open>
  Claim C1. In a freshly reset session (attempt counter 0, stored delay at its base
  value: the state at start-up, after a successful open and after a forced reconnect),
  ten failing rounds, each opened by a close event with a code other than 1000, schedule
  the fast attempts 1 to 10 after 3000, 4500, 6750, 10125, 15187.5, 22781.25, 30000,
  30000, 30000 and 30000 ms: attempt \<open>n\<close> is scheduled after
  \<open>min (3000 * 1.5 ^ (n - 1)) 30000\<close> ms, which is the maximum from the 7th attempt on.
\<close>

theorem reconnect_delay_sequence:
  assumes "reconnectAttempts s = 0"
    and "currentReconnectDelay s = reconnectDelay"
    and "code \<noteq> 1000"
  shows "map snd (retry_run code w 10 s)
           = map Some [3000, 4500, 6750, 10125, 30375 / 2, 91125 / 4,
                       30000, 30000, 30000, 30000]
         \<and> (\<forall>n \<in> {1..10}.
               retry_run code w 10 s ! (n - 1)
                 = (n, Some (min (reconnectDelay * reconnectBackoffMultiplier ^ (n - 1))
                                 maxReconnectDelay)))
         \<and> (\<forall>n \<in> {7..10}. snd (retry_run code w 10 s ! (n - 1)) = Some maxReconnectDelay)"
proof -
  have d: "currentReconnectDelay s
             = min (reconnectDelay * reconnectBackoffMultiplier ^ 0) maxReconnectDelay"
    using assms(2) by (simp add: reconnectDelay_def maxReconnectDelay_def)
  have run: "retry_run code w 10 s =
     map (\<lambda>i. (i + 1, Some (min (reconnectDelay * reconnectBackoffMultiplier ^ i)
                                 maxReconnectDelay)))
         [0..<10]"
    using retry_run_fast[OF assms(3) _ d, of 10 w] assms(1)
    by (simp add: maxReconnectAttempts_def)
  have seq: "map snd (retry_run code w 10 s)
           = map Some [3000, 4500, 6750, 10125, 30375 / 2, 91125 / 4,
                       30000, 30000, 30000, 30000]"
    unfolding run using first_ten_delays by (simp add: o_def)
  have nth: "retry_run code w 10 s ! (n - 1)
                 = (n, Some (min (reconnectDelay * reconnectBackoffMultiplier ^ (n - 1))
                                 maxReconnectDelay))"
    if "n \<in> {1..10}" for n
  proof -
    from that have "n - 1 < 10" and "n - 1 + 1 = n" by auto
    then show ?thesis unfolding run by (simp del: upt_Suc)
  qed
  have late: "snd (retry_run code w 10 s ! (n - 1)) = Some maxReconnectDelay"
    if "n \<in> {7..10}" for n
  proof -
    from that have "n - 1 < 10" by auto
    then have "snd (retry_run code w 10 s ! (n - 1)) = map snd (retry_run code w 10 s) ! (n - 1)"
      unfolding run by (simp del: upt_Suc)
    moreover from that have "n = 7 \<or> n = 8 \<or> n = 9 \<or> n = 10" by auto
    ultimately show ?thesis
      unfolding seq by (auto simp: maxReconnectDelay_def)
  qed
  from seq nth late show ?thesis by blast
qed

theorem reconnect_delay_sequence_witness:
  "reconnectAttempts (handleWebSocketOpen initial_client) = 0
   \<and> currentReconnectDelay (handleWebSocketOpen initial_client) = reconnectDelay
   \<and> (1006::nat) \<noteq> 1000
   \<and> map snd (retry_run 1006 1 10 (handleWebSocketOpen initial_client))
        = map Some [3000, 4500, 6750, 10125, 30375 / 2, 91125 / 4,
                    30000, 30000, 30000, 30000]
   \<and> retry_run 1006 1 10 (handleWebSocketOpen initial_client) ! (5 - 1)
        = (5, Some (min (reconnectDelay * reconnectBackoffMultiplier ^ (5 - 1)) maxReconnectDelay))
   \<and> snd (retry_run 1006 1 10 (handleWebSocketOpen initial_client) ! (7 - 1))
        = Some maxReconnectDelay"
proof -
  have a: "reconnectAttempts (handleWebSocketOpen initial_client) = 0"
    and b: "currentReconnectDelay (handleWebSocketOpen initial_client) = reconnectDelay"
    by (simp_all add: handleWebSocketOpen_def clearReconnectTimers_def startPingTimer_def
          stopPingTimer_def Let_def)
  have c: "(1006::nat) \<noteq> 1000" by simp
  have "(5::nat) \<in> {1..10}" and "(7::nat) \<in> {7..10}" by simp_all
  with reconnect_delay_sequence[OF a b c, of 1] a b c show ?thesis by blast
qed

text \<open>
  Claim C5, as stated, fails on the second half: a close with a code other than 1000 does
  not always enter fast retry 1. The close event that reports the failure of the first
  retry (code 1006) arrives with the attempt counter at 1 and schedules attempt 2 after
  4500 ms.
\<close>

theorem close_not_always_first_retry:
  "reconnectAttempts
     (handleWebSocketClose 1006
        (handleWebSocketError
           (connectToMxVoice (Some 2)
              (handleWebSocketClose 1006 (handleWebSocketOpen initial_client))))) = 2
   \<and> reconnectTimer
     (handleWebSocketClose 1006
        (handleWebSocketError
           (connectToMxVoice (Some 2)
              (handleWebSocketClose 1006 (handleWebSocketOpen initial_client))))) = Some 4500"
  by (simp add: handleWebSocketClose_def handleWebSocketError_def connectToMxVoice_def
        handleWebSocketOpen_def initial_client_def scheduleReconnect_def
        clearReconnectTimers_def startPingTimer_def stopPingTimer_def
        maxReconnectAttempts_def reconnectDelay_def maxReconnectDelay_def
        reconnectBackoffMultiplier_def Let_def)

text \<open>
  Claim C5, amended. A close with code 1000 arms no timer: it leaves both reconnect
  timers, the attempt counter and the stored delay as they were. A close with any other
  code always schedules a reconnection: below the ceiling of 10 attempts it arms the
  one-shot timer for fast retry number \<open>reconnectAttempts + 1\<close>, and at the ceiling it
  arms the slow interval timer. When the connection that closes had been open (the open
  handler has reset the session), the retry entered is fast retry 1, after the base delay.
\<close>

theorem close_schedules_reconnect:
  "(code = 1000 \<longrightarrow>
      reconnectTimer (handleWebSocketClose code s) = reconnectTimer s
      \<and> slowReconnectTimer (handleWebSocketClose code s) = slowReconnectTimer s
      \<and> reconnectAttempts (handleWebSocketClose code s) = reconnectAttempts s
      \<and> currentReconnectDelay (handleWebSocketClose code s) = currentReconnectDelay s)
   \<and> (code \<noteq> 1000 \<and> reconnectAttempts s < maxReconnectAttempts \<longrightarrow>
      reconnectAttempts (handleWebSocketClose code s) = reconnectAttempts s + 1
      \<and> reconnectTimer (handleWebSocketClose code s)
           = Some (min (currentReconnectDelay s) maxReconnectDelay)
      \<and> slowReconnectTimer (handleWebSocketClose code s) = None)
   \<and> (code \<noteq> 1000 \<and> maxReconnectAttempts \<le> reconnectAttempts s \<longrightarrow>
      reconnectAttempts (handleWebSocketClose code s) = reconnectAttempts s
      \<and> reconnectTimer (handleWebSocketClose code s) = None
      \<and> slowReconnectTimer (handleWebSocketClose code s) = Some slowReconnectDelay)
   \<and> (code \<noteq> 1000 \<longrightarrow>
      reconnectAttempts (handleWebSocketClose code (handleWebSocketOpen s)) = 1
      \<and> reconnectTimer (handleWebSocketClose code (handleWebSocketOpen s)) = Some reconnectDelay)"
proof -
  have clean: "handleWebSocketClose 1000 s
                 = s\<lparr> isConnected := False, websocket := None, pingTimer := None \<rparr>"
    by (rule handleWebSocketClose_clean)
  have opened: "reconnectAttempts (handleWebSocketOpen s) = 0"
               "currentReconnectDelay (handleWebSocketOpen s) = reconnectDelay"
    by (simp_all add: handleWebSocketOpen_def clearReconnectTimers_def startPingTimer_def
          stopPingTimer_def Let_def)
  have after_open: "reconnectAttempts (handleWebSocketClose code (handleWebSocketOpen s)) = 1
      \<and> reconnectTimer (handleWebSocketClose code (handleWebSocketOpen s)) = Some reconnectDelay"
    if "code \<noteq> 1000"
    using that opened
    by (simp add: handleWebSocketClose_fast maxReconnectAttempts_def reconnectDelay_def
          maxReconnectDelay_def)
  show ?thesis
    using clean after_open
    by (auto simp: handleWebSocketClose_fast handleWebSocketClose_slow not_less)
qed

theorem close_schedules_reconnect_witness:
  "reconnectTimer (handleWebSocketClose 1000 (handleWebSocketOpen initial_client)) = None
   \<and> slowReconnectTimer (handleWebSocketClose 1000 (handleWebSocketOpen initial_client)) = None
   \<and> reconnectAttempts (handleWebSocketClose 1006 (initial_client\<lparr> reconnectAttempts := 3 \<rparr>)) = 4
   \<and> slowReconnectTimer (handleWebSocketClose 1006 (initial_client\<lparr> reconnectAttempts := 10 \<rparr>))
        = Some 60000
   \<and> reconnectAttempts (handleWebSocketClose 1006 (handleWebSocketOpen initial_client)) = 1
   \<and> reconnectTimer (handleWebSocketClose 1006 (handleWebSocketOpen initial_client)) = Some 3000"
proof -
  have o: "reconnectTimer (handleWebSocketOpen initial_client) = None"
          "slowReconnectTimer (handleWebSocketOpen initial_client) = None"
    by (simp_all add: handleWebSocketOpen_def clearReconnectTimers_def startPingTimer_def
          stopPingTimer_def Let_def)
  have n: "(1006::nat) \<noteq> 1000" by simp
  have lt: "reconnectAttempts (initial_client\<lparr> reconnectAttempts := 3 \<rparr>) < maxReconnectAttempts"
    and ge: "maxReconnectAttempts \<le> reconnectAttempts (initial_client\<lparr> reconnectAttempts := 10 \<rparr>)"
    by (simp_all add: maxReconnectAttempts_def)
  show ?thesis
    using close_schedules_reconnect[of 1000 "handleWebSocketOpen initial_client"]
          close_schedules_reconnect[of 1006 "initial_client\<lparr> reconnectAttempts := 3 \<rparr>"]
          close_schedules_reconnect[of 1006 "initial_client\<lparr> reconnectAttempts := 10 \<rparr>"]
          close_schedules_reconnect[of 1006 initial_client]
          o n lt ge
    by (simp add: slowReconnectDelay_def reconnectDelay_def)
qed

section \<open>Properties of the host\<close>

lemma broadcast_sends:
  "concat (map (\<lambda>ws. if authenticated (sock e ws) \<noteq> Some False
                      then sendMessage e ws message else []) conns)
   = map (\<lambda>ws. Sent ws message) (filter (deliverable e) conns)"
  by (induction conns) (auto simp: sendMessage_def deliverable_def)

text \<open>
  Claim C7. A broadcast delivers the envelope to exactly the connections of the registry
  that are open and whose \<open>send\<close> does not throw (and that are not marked
  \<open>authenticated === false\<close>), in registry order: whether a connection gets the envelope
  depends on that connection alone, so a closed connection or a failing \<open>send\<close> never
  keeps it from another one. With three open connections and one closed connection in the
  registry there are exactly three deliveries.
\<close>

theorem broadcast_isolates_connections:
  "broadcastMessage e msg s
     = map (\<lambda>ws. Sent ws msg) (filter (deliverable e) (activeConnections s))
   \<and> (\<forall>ws \<in> set (activeConnections s).
         deliverable e ws \<longrightarrow> Sent ws msg \<in> set (broadcastMessage e msg s))
   \<and> (activeConnections s = [a, b, c, d]
        \<and> readyState (sock e a) = OPEN \<and> readyState (sock e b) = OPEN
        \<and> readyState (sock e c) = OPEN \<and> readyState (sock e d) = CLOSED
        \<and> (\<forall>ws \<in> {a, b, c}. authenticated (sock e ws) \<noteq> Some False \<and> \<not> sendThrows (sock e ws))
      \<longrightarrow> broadcastMessage e msg s = [Sent a msg, Sent b msg, Sent c msg]
          \<and> length (broadcastMessage e msg s) = 3)"
proof -
  have eq: "broadcastMessage e msg s
     = map (\<lambda>ws. Sent ws msg) (filter (deliverable e) (activeConnections s))"
    by (simp add: broadcastMessage_def broadcast_sends)
  have each: "\<forall>ws \<in> set (activeConnections s).
         deliverable e ws \<longrightarrow> Sent ws msg \<in> set (broadcastMessage e msg s)"
    unfolding eq by auto
  have four: "broadcastMessage e msg s = [Sent a msg, Sent b msg, Sent c msg]
          \<and> length (broadcastMessage e msg s) = 3"
    if "activeConnections s = [a, b, c, d]
        \<and> readyState (sock e a) = OPEN \<and> readyState (sock e b) = OPEN
        \<and> readyState (sock e c) = OPEN \<and> readyState (sock e d) = CLOSED
        \<and> (\<forall>ws \<in> {a, b, c}. authenticated (sock e ws) \<noteq> Some False \<and> \<not> sendThrows (sock e ws))"
    unfolding eq using that by (simp add: deliverable_def)
  from eq each four show ?thesis by blast
qed

theorem broadcast_isolates_connections_witness:
  "broadcastMessage example_env
       (Obj [(''action'', Str ''audioStateUpdate''), (''payload'', Obj [(''isPlaying'', Bool True)])])
       (example_host\<lparr> activeConnections := [1, 2, 3, 4] \<rparr>) = 
    [Sent 1 (Obj [(''action'', Str ''audioStateUpdate''), (''payload'', Obj [(''isPlaying'', Bool True)])]),
     Sent 2 (Obj [(''action'', Str ''audioStateUpdate''), (''payload'', Obj [(''isPlaying'', Bool True)])]),
     Sent 3 (Obj [(''action'', Str ''audioStateUpdate''), (''payload'', Obj [(''isPlaying'', Bool True)])])]
   \<and> 1 \<in> set (activeConnections (example_host\<lparr> activeConnections := [1, 2, 3, 4] \<rparr>))
   \<and> deliverable example_env 1"
  using broadcast_isolates_connections[of example_env _
          "example_host\<lparr> activeConnections := [1, 2, 3, 4] \<rparr>" 1 2 3 4]
  by (simp add: example_env_def deliverable_def)

lemma sendStateUpdate_registry:
  "activeConnections (fst (sendStateUpdate e ws s)) = activeConnections s"
  "connectionCount (streamDeckState (fst (sendStateUpdate e ws s))) = connectionCount (streamDeckState s)"
  "sd_connected (streamDeckState (fst (sendStateUpdate e ws s))) = sd_connected (streamDeckState s)"
  by (simp_all add: sendStateUpdate_def Let_def split: option.splits)

lemma set_delete_size:
  "distinct conns \<Longrightarrow>
   distinct (set_delete ws conns)
   \<and> card (set (set_delete ws conns)) = length (set_delete ws conns)"
  unfolding set_delete_def by (metis distinct_card distinct_removeAll)

lemma set_add_size:
  "distinct conns \<Longrightarrow>
   distinct (set_add ws conns)
   \<and> card (set (set_add ws conns)) = length (set_add ws conns)
   \<and> 0 < length (set_add ws conns)"
  by (auto simp: set_add_def distinct_card)

text \<open>
  Claim C9. After accepting a connection, after handling the close or the error of a
  connection and after stopping the server, \<open>connectionCount\<close> equals the size of the
  registry and \<open>connected\<close> holds exactly if the registry is non-empty. (\<open>stopServer\<close>
  does nothing when no server is running; the registry and the state then agree as they
  did before.)
\<close>

theorem registry_count_invariant:
  assumes "distinct (activeConnections s)"
  shows "registry_consistent (fst (handleConnection e ws s))
       \<and> registry_consistent (handleDisconnection ws s)
       \<and> registry_consistent (handleConnectionError ws msg s)
       \<and> (wsServer s \<noteq> None \<or> registry_consistent s
            \<longrightarrow> registry_consistent (fst (snd (stopServer e s))))"
proof -
  have accept: "registry_consistent (fst (handleConnection e ws s))"
    using set_add_size[OF assms, of ws]
    by (simp add: handleConnection_def Let_def split_beta registry_consistent_def
          sendStateUpdate_registry)
  have closed: "registry_consistent (handleDisconnection ws s)"
    using set_delete_size[OF assms, of ws]
    by (simp add: handleDisconnection_def Let_def registry_consistent_def)
  have failed: "registry_consistent (handleConnectionError ws msg s)"
    using set_delete_size[OF assms, of ws]
    by (simp add: handleConnectionError_def Let_def registry_consistent_def)
  have stopped: "registry_consistent (fst (snd (stopServer e s)))"
    if "wsServer s \<noteq> None \<or> registry_consistent s"
    using that
    by (auto simp: stopServer_def registry_consistent_def default_state_def)
  from accept closed failed stopped show ?thesis by blast
qed

theorem registry_count_invariant_witness:
  "distinct (activeConnections example_host)
   \<and> registry_consistent (fst (handleConnection example_env 2 example_host))
   \<and> connectionCount (streamDeckState (fst (handleConnection example_env 2 example_host))) = 2
   \<and> registry_consistent (handleDisconnection 1 example_host)
   \<and> \<not> sd_connected (streamDeckState (handleDisconnection 1 example_host))
   \<and> registry_consistent (handleConnectionError 1 ''ECONNRESET'' example_host)
   \<and> wsServer example_host \<noteq> None
   \<and> registry_consistent (fst (snd (stopServer example_env example_host)))"
proof -
  have h: "example_host =
     \<lparr> wsServer = Some 8888, activeConnections = [1], serverPort = 8888,
       streamDeckState = default_state\<lparr> sd_connected := True, connectionCount := 1,
                                          lastActivity := Some 1700000000000 \<rparr> \<rparr>"
    by (simp add: example_host_def handleConnection_def startServer_def initial_host_def
          sendStateUpdate_def example_env_def set_add_def Let_def)
  have d: "distinct (activeConnections example_host)" and r: "wsServer example_host \<noteq> None"
    by (simp_all add: h)
  have c2: "connectionCount (streamDeckState (fst (handleConnection example_env 2 example_host))) = 2"
    by (simp add: h handleConnection_def sendStateUpdate_def example_env_def set_add_def Let_def)
  have c0: "\<not> sd_connected (streamDeckState (handleDisconnection 1 example_host))"
    by (simp add: h handleDisconnection_def set_delete_def Let_def)
  from registry_count_invariant[OF d, of example_env 2 "''ECONNRESET''"]
       registry_count_invariant[OF d, of example_env 1 "''ECONNRESET''"] d r c2 c0
  show ?thesis by blast
qed

subsection \<open>Starting the server\<close>

text \<open>
  Claim C4 holds of the design and fails on the code. When the port is in use, the
  library reports the failure by an \<open>error\<close> event after the constructor has returned:
  \<open>startServer\<close> has then already returned \<open>true\<close>, the listener \<open>handleServerError\<close>
  only logs, the module keeps the dead server object, reports the server as running and
  answers the next start with \<open>false\<close> as for a server that is already running.
\<close>

theorem bind_failure_reported_as_success:
  "startServer (ErrorEvent ''listen EADDRINUSE: address already in use 127.0.0.1:8888'') initial_host
     = (True, initial_host\<lparr> wsServer := Some 8888 \<rparr>)
   \<and> getServerStatus_running
       (handleServerError ''listen EADDRINUSE: address already in use 127.0.0.1:8888''
          (snd (startServer (ErrorEvent ''listen EADDRINUSE: address already in use 127.0.0.1:8888'')
                  initial_host)))
   \<and> fst (startServer Listening
            (handleServerError ''listen EADDRINUSE: address already in use 127.0.0.1:8888''
               (snd (startServer (ErrorEvent ''listen EADDRINUSE: address already in use 127.0.0.1:8888'')
                       initial_host)))) = False"
  by (simp add: startServer_def handleServerError_def getServerStatus_running_def initial_host_def)

subsection \<open>Responses and their error codes\<close>

lemma spread_nil [simp]: "spread a [] = a"
  by (simp add: spread_def)

lemma spread_cons [simp]: "spread a ((k, v) # b) = spread (set_prop k v a) b"
  by (simp add: spread_def)

lemma sendActionResponse_literal:
  "sendActionResponse e ws (Str (c # cs)) success message code payload
     = Some (sendMessage e ws
               (action_response e ((c # cs) @ ''Response'') success message code payload))"
  by (simp add: sendActionResponse_def)

lemma sendActionResponse_falsy:
  "\<not> truthy action \<Longrightarrow>
   sendActionResponse e ws action success message code payload
     = Some (sendMessage e ws (action_response e ''errorResponse'' success message code payload))"
  by (simp add: sendActionResponse_def)

lemma action_response_failure:
  "action_response e (action @ ''Response'') False (Str (c # cs)) (Str (d # ds)) []
     = failure_response e action (c # cs) (d # ds)"
  by (simp add: action_response_def failure_response_def set_prop_def js_or_def Let_def)

lemma num_guard_iff:
  "(num_ge n 0 \<and> num_le n 1) = in_unit_interval n"
  by (cases n) auto

lemma map_of_set_prop: "map_of (set_prop k v kvs) = (map_of kvs)(k \<mapsto> v)"
  by (simp add: set_prop_def update_conv')

lemma map_of_spread_absent:
  "map_of a k = None \<Longrightarrow> k \<notin> fst ` set b \<Longrightarrow> map_of (spread a b) k = None"
proof (induction b arbitrary: a)
  case Nil
  then show ?case by simp
next
  case (Cons p b)
  obtain k' v' where p: "p = (k', v')" by (cases p)
  with Cons.prems have "k' \<noteq> k" and "k \<notin> fst ` set b" by auto
  with Cons.prems(1) have "map_of (set_prop k' v' a) k = None"
    by (simp add: map_of_set_prop)
  with Cons.IH \<open>k \<notin> fst ` set b\<close> show ?case by (simp add: p)
qed

lemma action_response_code:
  assumes "has_code c (Sent ws (action_response e name succ m code payload))"
    and "''error'' \<notin> fst ` set payload"
  shows "\<not> succ \<and> js_or code (Str ''UNKNOWN_ERROR'') = Str c"
proof -
  let ?p0 = "spread [(''success'', Bool succ)] payload"
  have none: "map_of ?p0 ''error'' = None"
    using assms(2) by (intro map_of_spread_absent) simp_all
  show ?thesis
  proof (cases "\<not> succ \<and> truthy m")
    case True
    with assms(1) show ?thesis
      by (auto simp: action_response_def Let_def map_of_set_prop)
  next
    case False
    with assms(1) none show ?thesis
      by (auto simp: action_response_def Let_def)
  qed
qed

lemma sendActionResponse_code:
  assumes "sendActionResponse e ws a succ m code payload = Some out"
    and "eff \<in> set out"
    and "has_code c eff"
    and "''error'' \<notin> fst ` set payload"
  shows "\<not> succ \<and> js_or code (Str ''UNKNOWN_ERROR'') = Str c"
proof -
  from assms(1) obtain name where
    out: "out = sendMessage e ws (action_response e name succ m code payload)"
    by (auto simp: sendActionResponse_def split: option.splits)
  with assms(2) have "eff = Sent ws (action_response e name succ m code payload)"
    by (auto simp: sendMessage_def split: if_splits)
  with assms(3) action_response_code[OF _ assms(4)] show ?thesis by blast
qed

lemma in_async_code:
  assumes "eff \<in> set (in_async (sendActionResponse e ws a succ m code payload))"
    and "has_code c eff"
    and "''error'' \<notin> fst ` set payload"
  shows "\<not> succ \<and> js_or code (Str ''UNKNOWN_ERROR'') = Str c"
proof (cases "sendActionResponse e ws a succ m code payload")
  case None
  with assms(1,2) show ?thesis by (simp add: in_async_def)
next
  case (Some out)
  with assms(1) have "eff \<in> set out" by (simp add: in_async_def)
  from sendActionResponse_code[OF Some this assms(2,3)] show ?thesis .
qed

lemma in_try_code:
  assumes "eff \<in> set (in_try (sendActionResponse e ws a succ m code payload) caught)"
    and "has_code c eff"
    and "''error'' \<notin> fst ` set payload"
  shows "(\<not> succ \<and> js_or code (Str ''UNKNOWN_ERROR'') = Str c) \<or> eff \<in> set caught"
proof (cases "sendActionResponse e ws a succ m code payload")
  case None
  with assms(1) show ?thesis by (simp add: in_try_def)
next
  case (Some out)
  with assms(1) have "eff \<in> set out" by (simp add: in_try_def)
  from sendActionResponse_code[OF Some this assms(2,3)] show ?thesis by blast
qed

lemma sendStateUpdate_code:
  "eff \<in> set (snd (sendStateUpdate e ws s)) \<Longrightarrow> \<not> has_code c eff"
  by (auto simp: sendStateUpdate_def Let_def sendMessage_def state_props_def map_of_set_prop
        split: if_splits)

lemma handler_codes:
  assumes "actionHandlers action = Some handler"
    and "eff \<in> set (snd (handler e ws payload s))"
  shows "\<not> has_code ''MISSING_ACTION'' eff"
proof -
  from assms(1) obtain name where name: "action = Str name"
    by (cases action) (simp_all add: actionHandlers_def)
  from assms(1) have h: "handler \<in> {pauseTrack, playTrack, stopTrack, setVolume, seekToPosition,
      toggleLoop, toggleMute, getState, getHotkeyTabs, getHotkeyTabContent}"
    unfolding name actionHandlers_def by (auto split: if_splits)
  have r: "\<not> has_code ''MISSING_ACTION'' eff"
    if "eff \<in> set (in_async (sendActionResponse e ws a succ m (Str code) pl))"
      and "''error'' \<notin> fst ` set pl" and "code \<noteq> ''MISSING_ACTION''" and "code \<noteq> []"
    for a succ m code pl
    using in_async_code[OF that(1) _ that(2), of "''MISSING_ACTION''"] that(3,4)
    by (auto simp: js_or_def)
  have r0: "\<not> has_code ''MISSING_ACTION'' eff"
    if "eff \<in> set (in_async (sendActionResponse e ws a True m code pl))"
      and "''error'' \<notin> fst ` set pl"
    for a m code pl
    using in_async_code[OF that(1) _ that(2), of "''MISSING_ACTION''"]
    by auto
  have t: "\<not> has_code ''MISSING_ACTION'' eff"
    if "eff \<in> set (in_try (sendActionResponse e ws a succ m (Str code) pl) caught)"
      and "''error'' \<notin> fst ` set pl" and "code \<noteq> ''MISSING_ACTION''" and "code \<noteq> []"
      and "eff \<in> set caught \<Longrightarrow> \<not> has_code ''MISSING_ACTION'' eff"
    for a succ m code pl caught
    using in_try_code[OF that(1) _ that(2), of "''MISSING_ACTION''"] that(3,4,5)
    by (auto simp: js_or_def)
  have t0: "\<not> has_code ''MISSING_ACTION'' eff"
    if "eff \<in> set (in_try (sendActionResponse e ws a True m code pl) caught)"
      and "''error'' \<notin> fst ` set pl"
      and "eff \<in> set caught \<Longrightarrow> \<not> has_code ''MISSING_ACTION'' eff"
    for a m code pl caught
    using in_try_code[OF that(1) _ that(2), of "''MISSING_ACTION''"] that(3)
    by auto
  consider "handler = pauseTrack" | "handler = playTrack" | "handler = stopTrack"
    | "handler = setVolume" | "handler = seekToPosition" | "handler = toggleLoop"
    | "handler = toggleMute" | "handler = getState" | "handler = getHotkeyTabs"
    | "handler = getHotkeyTabContent"
    using h by blast
  then show ?thesis
  proof cases
    case 1
    with assms(2) show ?thesis
      by (auto simp: pauseTrack_def stamp_def dest!: r0)
  next
    case 2
    with assms(2) show ?thesis
      by (auto simp: playTrack_def stamp_def split: option.splits if_splits dest!: r0)
  next
    case 3
    with assms(2) show ?thesis
      by (auto simp: stopTrack_def stamp_def dest!: r0)
  next
    case 4
    with assms(2) show ?thesis
      by (auto simp: setVolume_def stamp_def split: option.splits if_splits dest!: r0 r)
  next
    case 5
    with assms(2) show ?thesis
      by (auto simp: seekToPosition_def stamp_def split: option.splits if_splits dest!: r0 r)
  next
    case 6
    with assms(2) show ?thesis
      by (auto simp: toggleLoop_def stamp_def Let_def split: option.splits if_splits dest!: r0)
  next
    case 7
    with assms(2) show ?thesis
      by (auto simp: toggleMute_def stamp_def Let_def split: option.splits if_splits dest!: r0)
  next
    case 8
    with assms(2) show ?thesis
      by (auto simp: getState_def dest: sendStateUpdate_code)
  next
    case 9
    let ?failed = "in_async (sendActionResponse e ws (Str ''getHotkeyTabs'') False
                     (Str ''Failed to get hotkey tabs'') (Str ''HOTKEY_FETCH_ERROR'') [])"
    have f: "eff \<in> set ?failed \<Longrightarrow> \<not> has_code ''MISSING_ACTION'' eff"
      using r[where pl = "[]"] by simp
    from 9 assms(2) show ?thesis
      by (auto simp: getHotkeyTabs_def stamp_def Let_def split: option.splits if_splits
            dest!: f t0[OF _ _ f] t[OF _ _ _ _ f])
  next
    case 10
    let ?failed = "in_async (sendActionResponse e ws (Str ''getHotkeyTabContent'') False
                     (Str ''Failed to get hotkey tab content'')
                     (Str ''HOTKEY_CONTENT_FETCH_ERROR'') [])"
    have f: "eff \<in> set ?failed \<Longrightarrow> \<not> has_code ''MISSING_ACTION'' eff"
      using r[where pl = "[]"] by simp
    from 10 assms(2) show ?thesis
      by (auto simp: getHotkeyTabContent_def stamp_def Let_def split: option.splits if_splits
            dest!: f t0[OF _ _ f] t[OF _ _ _ _ f])
  qed
qed

lemma parse_failure_reply:
  "handleMessage e ws None s = (s, sendMessage e ws parse_error_message)"
  by (simp add: handleMessage_def)

lemma null_reply:
  "m = Null \<or> m = Undefined \<Longrightarrow>
   handleMessage e ws (Some m) s = (touch e s, sendMessage e ws parse_error_message)"
  by (auto simp: handleMessage_def Let_def)

lemma no_action_reply:
  "get_prop m ''action'' = Some a \<Longrightarrow> \<not> truthy a \<Longrightarrow> get_prop m ''type'' = Some t \<Longrightarrow>
   handleMessage e ws (Some m) s
     = (touch e s,
        sendMessage e ws (if t = Str ''ping'' then pong_message e else unsupported_format_message))"
  by (simp add: handleMessage_def Let_def)

lemma sendMessage_delivered:
  "deliverable e ws \<Longrightarrow> sendMessage e ws msg = [Sent ws msg]"
  by (simp add: sendMessage_def deliverable_def)

lemma plain_reply_codes:
  "\<not> has_code ''MISSING_ACTION'' (Sent ws parse_error_message)"
  "\<not> has_code ''MISSING_ACTION'' (Sent ws unsupported_format_message)"
  "\<not> has_code ''MISSING_ACTION'' (Sent ws (pong_message e))"
  by (simp_all add: parse_error_message_def unsupported_format_message_def pong_message_def)

lemma sendMessage_code:
  "eff \<in> set (sendMessage e ws msg) \<Longrightarrow> \<not> has_code c (Sent ws msg) \<Longrightarrow> \<not> has_code c eff"
  by (auto simp: sendMessage_def split: if_splits)

lemma dispatch_codes:
  assumes "get_prop m ''action'' = Some a" and "truthy a"
    and "handleActionCommand e ws m s = Some r"
    and "eff \<in> set (snd r)"
  shows "\<not> has_code ''MISSING_ACTION'' eff"
proof (cases "actionHandlers a")
  case None
  with assms obtain name out where
    "sendActionResponse e ws a False (Str (''Unknown action: '' @ name))
       (Str ''UNKNOWN_ACTION'') [] = Some out"
    and "eff \<in> set out"
    by (auto simp: handleActionCommand_def Let_def split: option.splits)
  from sendActionResponse_code[OF this, of "''MISSING_ACTION''"] show ?thesis
    by (auto simp: js_or_def)
next
  case (Some handler)
  with assms obtain payload where "r = handler e ws payload s"
    by (auto simp: handleActionCommand_def Let_def split: option.splits)
  with handler_codes[OF Some, of eff e ws payload s] assms(4) show ?thesis by simp
qed

lemma handleMessage_codes:
  assumes "eff \<in> set (snd (handleMessage e ws parsed s))"
  shows "\<not> has_code ''MISSING_ACTION'' eff"
proof (cases parsed)
  case None
  with assms show ?thesis
    by (auto simp: handleMessage_def dest: sendMessage_code[OF _ plain_reply_codes(1)])
next
  case (Some m)
  show ?thesis
  proof (cases "get_prop m ''action''")
    case None
    then have "m = Null \<or> m = Undefined" by (cases m) simp_all
    from null_reply[OF this, of e ws s] assms Some show ?thesis
      by (auto dest: sendMessage_code[OF _ plain_reply_codes(1)])
  next
    case a: (Some a)
    then obtain t where t: "get_prop m ''type'' = Some t" by (cases m) simp_all
    show ?thesis
    proof (cases "truthy a")
      case False
      from no_action_reply[OF a False t, of e ws s] assms Some show ?thesis
        by (auto split: if_splits dest: sendMessage_code[OF _ plain_reply_codes(2)]
              sendMessage_code[OF _ plain_reply_codes(3)])
    next
      case True
      show ?thesis
      proof (cases "handleActionCommand e ws m (touch e s)")
        case None
        with a t True assms Some show ?thesis
          by (auto simp: handleMessage_def Let_def dest: sendMessage_code[OF _ plain_reply_codes(1)])
      next
        case r: (Some r)
        with a t True assms Some have "eff \<in> set (snd r)"
          by (simp add: handleMessage_def Let_def)
        from dispatch_codes[OF a True r this] show ?thesis .
      qed
    qed
  qed
qed

lemma dispatcher_called:
  "get_prop m ''action'' = Some a \<Longrightarrow> truthy a \<Longrightarrow>
   handleMessage e ws (Some m) s
     = (case handleActionCommand e ws m (touch e s) of
          Some r \<Rightarrow> r
        | None \<Rightarrow> (touch e s, sendMessage e ws parse_error_message))"
  by (cases m) (auto simp: handleMessage_def Let_def split: option.splits)

lemma dispatcher_returns:
  "get_prop m ''action'' = Some (Str name) \<Longrightarrow>
   handleActionCommand e ws m s \<noteq> None"
  by (cases m)
     (auto simp: handleActionCommand_def Let_def sendActionResponse_def split: option.splits)

lemma dispatcher_missing_action:
  "get_prop m ''action'' = Some a \<Longrightarrow> \<not> truthy a \<Longrightarrow>
   handleActionCommand e ws m s
     = Some (s, sendMessage e ws
                  (action_response e ''errorResponse'' False (Str ''Action is required'')
                     (Str ''MISSING_ACTION'') []))"
  by (cases m) (auto simp: handleActionCommand_def Let_def sendActionResponse_falsy)

subsection \<open>Command handlers and the state\<close>

text \<open>
  A volume that the comparison reads as a number outside \<open>0 \<le> v \<le> 1\<close> (a number out of
  range, an infinity, an absent volume) is rejected: the reply is the \<open>setVolumeResponse\<close>
  envelope with \<open>success: false\<close> and the code \<open>INVALID_VOLUME\<close>, and the state is left
  as it is.
\<close>

lemma setVolume_rejects_numbers:
  assumes "get_prop payload ''volume'' = Some v"
    and "to_number (conv e) v = Some n"
    and "\<not> in_unit_interval n"
  shows "setVolume e ws payload s
           = (s, sendMessage e ws
                   (failure_response e ''setVolume'' ''Volume must be between 0 and 1''
                      ''INVALID_VOLUME''))"
  using assms
  by (simp add: setVolume_def num_guard_iff sendActionResponse_literal in_async_def
        action_response_failure[of e "''setVolume''", simplified])

text \<open>
  Claim C8 holds of the design and fails on the code. The guard of the handler compares
  without looking at the type, and the comparison reads \<open>null\<close> as 0 and \<open>true\<close> as 1:
  the command \<open>setVolume\<close> with volume \<open>null\<close> is accepted, answered with
  \<open>success: true\<close>, passed to the renderer, and \<open>null\<close> is written into the volume of the
  state (likewise \<open>true\<close>). A \<open>setVolume\<close> command whose payload is \<open>null\<close> gets no
  response at all: destructuring it throws inside the asynchronous handler, whose
  rejected promise nothing catches.
\<close>

theorem setVolume_accepts_null:
  "volume (streamDeckState (fst (handleMessage e ws
      (Some (Obj [(''action'', Str ''setVolume''), (''payload'', Obj [(''volume'', Null)])]))
      initial_host))) = Null
   \<and> snd (handleMessage e ws
      (Some (Obj [(''action'', Str ''setVolume''), (''payload'', Obj [(''volume'', Null)])]))
      initial_host)
     = Ipc ''streamdeck_set_volume'' Null
         # sendMessage e ws
             (Obj [ (''version'', Str ''1.0''),
                    (''timestamp'', Str (isoNow e)),
                    (''source'', Str ''mxvoice-streamdeck''),
                    (''action'', Str ''setVolumeResponse''),
                    (''payload'',
                       Obj [ (''success'', Bool True), (''volume'', Null),
                             (''timestamp'', num_of_nat (now e)) ]) ])
   \<and> volume (streamDeckState (fst (handleMessage e ws
      (Some (Obj [(''action'', Str ''setVolume''), (''payload'', Obj [(''volume'', Bool True)])]))
      initial_host))) = Bool True
   \<and> handleMessage e ws
      (Some (Obj [(''action'', Str ''setVolume''), (''payload'', Null)])) initial_host
     = (touch e initial_host, [UnhandledRejection])"
  by (simp add: handleMessage_def handleActionCommand_def actionHandlers_def setVolume_def
        sendActionResponse_literal in_async_def action_response_def stamp_def set_prop_def
        touch_def initial_host_def default_state_def Let_def)

text \<open>
  Claim C2 holds of the design and fails on the code. The handlers of \<open>setVolume\<close>,
  \<open>seekToPosition\<close>, \<open>toggleLoop\<close> and \<open>toggleMute\<close> write the value of the command
  into \<open>streamDeckState\<close> themselves, before any event of the domain layer has confirmed
  it: from the initial state, \<open>setVolume\<close> with volume 0.5 changes the volume of the
  state from 1 to 0.5, and \<open>toggleLoop\<close> with \<open>enabled: true\<close> sets \<open>loopEnabled\<close>.
\<close>

theorem setVolume_writes_state:
  "volume (streamDeckState initial_host) = Num (Fin 1)
   \<and> volume (streamDeckState (fst (handleMessage e ws
        (Some (Obj [(''action'', Str ''setVolume''),
                    (''payload'', Obj [(''volume'', Num (Fin (1 / 2)))])])) initial_host)))
      = Num (Fin (1 / 2))
   \<and> loopEnabled (streamDeckState (fst (handleMessage e ws
        (Some (Obj [(''action'', Str ''toggleLoop''),
                    (''payload'', Obj [(''enabled'', Bool True)])])) initial_host)))
      = Bool True"
  by (simp add: handleMessage_def handleActionCommand_def actionHandlers_def setVolume_def toggleLoop_def
        touch_def initial_host_def default_state_def Let_def)

subsection \<open>Messages without an action\<close>

text \<open>
  Claim C3, as stated, fails: a decoded message that lacks an \<open>action\<close> is not answered
  with \<open>PARSE_ERROR\<close>. The empty object is answered with a bare error message (no
  \<open>action\<close>, so not an \<open>errorResponse\<close> envelope) that carries the code
  \<open>UNSUPPORTED_FORMAT\<close>.
\<close>

theorem undecodable_message_counterexample:
  "handleMessage example_env 1 (Some (Obj [])) example_host
     = (touch example_env example_host, [Sent 1 unsupported_format_message])
   \<and> get_prop unsupported_format_message ''code'' = Some (Str ''UNSUPPORTED_FORMAT'')
   \<and> \<not> has_code ''PARSE_ERROR'' (Sent 1 unsupported_format_message)
   \<and> get_prop unsupported_format_message ''action'' = Some Undefined"
  by (simp add: handleMessage_def Let_def sendMessage_def example_env_def
        unsupported_format_message_def)

text \<open>
  Claim C3, amended. A message whose bytes fail JSON parsing is answered on the same
  connection with the bare message \<open>{type: 'error', message, code: 'PARSE_ERROR'}\<close>, and
  so is the decoded value \<open>null\<close>, on which reading \<open>action\<close> throws. Any other decoded
  message without a truthy \<open>action\<close> is answered with a pong when its \<open>type\<close> is
  \<open>'ping'\<close> and otherwise with a bare error message carrying \<open>UNSUPPORTED_FORMAT\<close>. The
  answer is delivered when the connection is open and its \<open>send\<close> does not throw. In all
  these cases the handler returns normally, sends to that connection only, leaves the
  registry and the server as they are, and the messages that follow on the connection
  are handled.
\<close>

theorem undecodable_messages_answered:
  "handleMessage e ws None s = (s, sendMessage e ws parse_error_message)
   \<and> (m = Null \<or> m = Undefined \<longrightarrow>
        handleMessage e ws (Some m) s = (touch e s, sendMessage e ws parse_error_message))
   \<and> (get_prop m ''action'' = Some a \<and> \<not> truthy a \<and> get_prop m ''type'' = Some t \<longrightarrow>
        handleMessage e ws (Some m) s
          = (touch e s,
             sendMessage e ws
               (if t = Str ''ping'' then pong_message e else unsupported_format_message)))
   \<and> (deliverable e ws \<longrightarrow> sendMessage e ws msg = [Sent ws msg])
   \<and> has_code ''PARSE_ERROR'' (Sent ws parse_error_message)
   \<and> has_code ''UNSUPPORTED_FORMAT'' (Sent ws unsupported_format_message)
   \<and> (bad = None \<or> bad = Some Null \<or> bad = Some Undefined
        \<or> (bad = Some m \<and> get_prop m ''action'' = Some a \<and> \<not> truthy a) \<longrightarrow>
        activeConnections (fst (handleMessage e ws bad s)) = activeConnections s
        \<and> wsServer (fst (handleMessage e ws bad s)) = wsServer s
        \<and> (\<forall>eff \<in> set (snd (handleMessage e ws bad s)). \<exists>reply. eff = Sent ws reply)
        \<and> handleMessages e ws (bad # rest) s
            = (fst (handleMessages e ws rest (fst (handleMessage e ws bad s))),
               snd (handleMessage e ws bad s)
                 @ snd (handleMessages e ws rest (fst (handleMessage e ws bad s)))))"
proof -
  have ty: "\<exists>t. get_prop m ''type'' = Some t" if "get_prop m ''action'' = Some a"
    using that by (cases m) simp_all
  have shape: "\<exists>s' reply. handleMessage e ws bad s = (s', sendMessage e ws reply)
                 \<and> (s' = s \<or> s' = touch e s)"
    if "bad = None \<or> bad = Some Null \<or> bad = Some Undefined
        \<or> (bad = Some m \<and> get_prop m ''action'' = Some a \<and> \<not> truthy a)"
  proof -
    from that show ?thesis
    proof (elim disjE conjE, goal_cases)
      case 1
      then show ?case using parse_failure_reply[of e ws s] by blast
    next
      case 2
      then show ?case using null_reply[of Null e ws s] by blast
    next
      case 3
      then show ?case using null_reply[of Undefined e ws s] by blast
    next
      case 4
      from ty[OF 4(2)] obtain t' where "get_prop m ''type'' = Some t'" ..
      from no_action_reply[OF 4(2,3) this, of e ws s] 4(1) show ?case by blast
    qed
  qed
  have kept: "activeConnections (fst (handleMessage e ws bad s)) = activeConnections s
        \<and> wsServer (fst (handleMessage e ws bad s)) = wsServer s
        \<and> (\<forall>eff \<in> set (snd (handleMessage e ws bad s)). \<exists>reply. eff = Sent ws reply)"
    if "bad = None \<or> bad = Some Null \<or> bad = Some Undefined
        \<or> (bad = Some m \<and> get_prop m ''action'' = Some a \<and> \<not> truthy a)"
    using shape[OF that] by (auto simp: touch_def sendMessage_def split: if_splits)
  have cont: "handleMessages e ws (bad # rest) s
            = (fst (handleMessages e ws rest (fst (handleMessage e ws bad s))),
               snd (handleMessage e ws bad s)
                 @ snd (handleMessages e ws rest (fst (handleMessage e ws bad s))))"
    by (simp add: split_beta Let_def)
  have codes: "has_code ''PARSE_ERROR'' (Sent ws parse_error_message)"
              "has_code ''UNSUPPORTED_FORMAT'' (Sent ws unsupported_format_message)"
    by (simp_all add: parse_error_message_def unsupported_format_message_def)
  from parse_failure_reply[of e ws s] null_reply[of m e ws s] no_action_reply[of m a t e ws s]
    sendMessage_delivered[of e ws msg] codes kept cont
  show ?thesis by blast
qed

theorem undecodable_messages_answered_witness:
  "deliverable example_env 1
   \<and> handleMessage example_env 1 None example_host = (example_host, [Sent 1 parse_error_message])
   \<and> handleMessage example_env 1 (Some Null) example_host
       = (touch example_env example_host, [Sent 1 parse_error_message])
   \<and> get_prop (Obj [(''type'', Str ''ping'')]) ''action'' = Some Undefined
   \<and> \<not> truthy Undefined
   \<and> handleMessage example_env 1 (Some (Obj [(''type'', Str ''ping'')])) example_host
       = (touch example_env example_host, [Sent 1 (pong_message example_env)])
   \<and> handleMessage example_env 1 (Some (Obj [(''type'', Str ''hello'')])) example_host
       = (touch example_env example_host, [Sent 1 unsupported_format_message])
   \<and> snd (handleMessages example_env 1 [None, Some (Obj [(''type'', Str ''ping'')])] example_host)
       = [Sent 1 parse_error_message, Sent 1 (pong_message example_env)]"
proof -
  have d: "deliverable example_env 1"
    by (simp add: deliverable_def example_env_def)
  have p: "get_prop (Obj [(''type'', Str ''ping'')]) ''action'' = Some Undefined"
          "get_prop (Obj [(''type'', Str ''ping'')]) ''type'' = Some (Str ''ping'')"
          "get_prop (Obj [(''type'', Str ''hello'')]) ''action'' = Some Undefined"
          "get_prop (Obj [(''type'', Str ''hello'')]) ''type'' = Some (Str ''hello'')"
          "\<not> truthy Undefined"
    by simp_all
  note a = undecodable_messages_answered[of example_env 1 example_host Null Undefined Undefined
             parse_error_message None "[Some (Obj [(''type'', Str ''ping'')])]"]
  note b = undecodable_messages_answered[of example_env 1 example_host
             "Obj [(''type'', Str ''ping'')]" Undefined "Str ''ping''" "pong_message example_env"]
  note c = undecodable_messages_answered[of example_env 1 example_host
             "Obj [(''type'', Str ''hello'')]" Undefined "Str ''hello''" unsupported_format_message]
  have one: "handleMessages example_env 1 [Some (Obj [(''type'', Str ''ping'')])] example_host
     = (touch example_env example_host, [Sent 1 (pong_message example_env)])"
    using b p d by (simp add: split_beta Let_def)
  from a b c d p one show ?thesis by simp
qed

text \<open>
  Claim C10, as stated, fails on its last part: the decoded value \<open>null\<close> lacks an
  action and is answered neither with a pong nor with \<open>UNSUPPORTED_FORMAT\<close>, but with
  \<open>PARSE_ERROR\<close>.
\<close>

theorem null_message_counterexample:
  "get_prop Null ''action'' = None
   \<and> handleMessage example_env 1 (Some Null) example_host
       = (touch example_env example_host, [Sent 1 parse_error_message])
   \<and> has_code ''PARSE_ERROR'' (Sent 1 parse_error_message)
   \<and> \<not> has_code ''UNSUPPORTED_FORMAT'' (Sent 1 parse_error_message)
   \<and> parse_error_message \<noteq> pong_message example_env"
  by (simp add: handleMessage_def Let_def sendMessage_def example_env_def
        parse_error_message_def pong_message_def)

text \<open>
  Claim C10, amended. No message that \<open>handleMessage\<close> sends, for any input, carries
  the code \<open>MISSING_ACTION\<close>: the dispatcher \<open>handleActionCommand\<close> is called exactly
  for the decoded messages with a truthy \<open>action\<close> (an exception that leaves it is
  answered with \<open>PARSE_ERROR\<close>; there is none when the action is a string), and its
  \<open>MISSING_ACTION\<close> branch is taken only for a falsy one. A decoded message without a truthy action is answered with
  a pong (\<open>type: 'ping'\<close>) or with \<open>UNSUPPORTED_FORMAT\<close>, except for \<open>null\<close>, where
  reading \<open>action\<close> throws and the answer is \<open>PARSE_ERROR\<close>.
\<close>

theorem missing_action_unreachable:
  "(\<forall>eff \<in> set (snd (handleMessage e ws parsed s)). \<not> has_code ''MISSING_ACTION'' eff)
   \<and> (get_prop m ''action'' = Some a \<and> truthy a \<longrightarrow>
        handleMessage e ws (Some m) s
          = (case handleActionCommand e ws m (touch e s) of
               Some r \<Rightarrow> r
             | None \<Rightarrow> (touch e s, sendMessage e ws parse_error_message)))
   \<and> (get_prop m ''action'' = Some (Str name) \<longrightarrow>
        handleActionCommand e ws m (touch e s) \<noteq> None)
   \<and> (get_prop m ''action'' = Some a \<and> \<not> truthy a \<and> get_prop m ''type'' = Some t \<longrightarrow>
        handleMessage e ws (Some m) s
          = (touch e s,
             sendMessage e ws
               (if t = Str ''ping'' then pong_message e else unsupported_format_message)))
   \<and> (m = Null \<or> m = Undefined \<longrightarrow>
        handleMessage e ws (Some m) s = (touch e s, sendMessage e ws parse_error_message))
   \<and> (get_prop m ''action'' = Some a \<and> \<not> truthy a \<longrightarrow>
        handleActionCommand e ws m s
          = Some (s, sendMessage e ws
                       (action_response e ''errorResponse'' False (Str ''Action is required'')
                          (Str ''MISSING_ACTION'') [])))"
  using handleMessage_codes[of _ e ws parsed s] dispatcher_called[of m a e ws s]
    dispatcher_returns[of m name e ws "touch e s"]
    no_action_reply[of m a t e ws s] null_reply[of m e ws s]
    dispatcher_missing_action[of m a e ws s]
  by blast

theorem missing_action_unreachable_witness:
  "snd (handleMessage example_env 1 (Some (Obj [(''action'', Str [])])) example_host)
       = [Sent 1 unsupported_format_message]
   \<and> \<not> has_code ''MISSING_ACTION'' (Sent 1 unsupported_format_message)
   \<and> handleActionCommand example_env 1 (Obj [(''action'', Str ''stopTrack'')])
        (touch example_env example_host)
       = Some (handleMessage example_env 1 (Some (Obj [(''action'', Str ''stopTrack'')])) example_host)
   \<and> (\<exists>eff \<in> set (snd (the (handleActionCommand example_env 1 (Obj [(''action'', Str [])])
                                 example_host))).
        has_code ''MISSING_ACTION'' eff)"
proof -
  let ?empty = "Obj [(''action'', Str [])]"
  let ?stop = "Obj [(''action'', Str ''stopTrack'')]"
  have p: "get_prop ?empty ''action'' = Some (Str [])"
          "\<not> truthy (Str [])"
          "get_prop ?empty ''type'' = Some Undefined"
          "get_prop ?stop ''action'' = Some (Str ''stopTrack'')"
          "truthy (Str ''stopTrack'')"
    by simp_all
  have d: "sendMessage example_env ws msg = [Sent ws msg]" if "ws \<noteq> 4" for ws msg
    using that by (simp add: sendMessage_def example_env_def)
  note a = missing_action_unreachable[where e = example_env and ws = 1
             and parsed = "Some ?empty" and s = example_host and m = ?empty
             and a = "Str []" and t = Undefined]
  note b = missing_action_unreachable[where e = example_env and ws = 1
             and parsed = None and s = example_host and m = ?stop
             and a = "Str ''stopTrack''" and name = "''stopTrack''"]
  have c: "has_code ''MISSING_ACTION''
             (Sent 1 (action_response example_env ''errorResponse'' False
                        (Str ''Action is required'') (Str ''MISSING_ACTION'') []))"
    by (simp add: action_response_def set_prop_def js_or_def Let_def)
  have called: "handleActionCommand example_env 1 ?stop (touch example_env example_host)
       = Some (handleMessage example_env 1 (Some ?stop) example_host)"
    using b p by (auto split: option.splits)
  from a p c d called show ?thesis by (simp add: unsupported_format_message_def)
qed

section \<open>Properties of the tab-switch notifications\<close>

lemma notify_broadcasts_once:
  assumes "broadcastApi r" and "hotkeyConfig r = Some cfg" and "get_prop cfg ''hotkeys'' \<noteq> None"
  shows "broadcasts (notifyHotkeyChange r action key extra) = 1"
  using assms
  by (auto simp: notifyHotkeyChange_def broadcasts_def Let_def split: option.splits)

text \<open>
  What the duplicate check achieves. With the broadcast API present, two \<open>shown.bs.tab\<close>
  notifications for the same switch from tab 2 to tab 3 produce one broadcast when the
  second comes less than 500 ms after the first and two broadcasts otherwise. The check
  reads the one marker the last emission has left: a switch back from 3 to 2 in between
  overwrites it. The entry check of \<open>switchToHotkeyTab\<close> suppresses a programmatic switch
  that repeats the marker, and a \<open>shown.bs.tab\<close> notification that follows the emission of
  a programmatic switch is suppressed, by the flag while it is set and by the marker
  within 500 ms.
\<close>

lemma listener_dedup:
  assumes "broadcastApi r" and "hotkeyConfig r = Some cfg" and "get_prop cfg ''hotkeys'' \<noteq> None"
  shows "(dt < 500 \<longrightarrow>
            broadcasts (snd (tab_events r [(t, tab_2_to_3), (t + dt, tab_2_to_3)] fresh_module)) = 1)
       \<and> (500 \<le> dt \<longrightarrow>
            broadcasts (snd (tab_events r [(t, tab_2_to_3), (t + dt, tab_2_to_3)] fresh_module)) = 2)
       \<and> broadcasts (snd (tab_events r [(t, tab_2_to_3), (t + 100, tab_2_to_3)] fresh_module)) = 1
       \<and> broadcasts (snd (tab_events r [(t, tab_2_to_3), (t + 600, tab_2_to_3)] fresh_module)) = 2
       \<and> broadcasts (snd (tab_events r
            [(t, tab_2_to_3), (t + 50, tab_3_to_2), (t + 100, tab_2_to_3)] fresh_module)) = 3
       \<and> (lastNotification m = Some \<lparr> fromTab = Some 2, toTab = 3, timestamp = t \<rparr>
            \<longrightarrow> switchToHotkeyTab (r\<lparr> r_now := t + 100, activeLink := Some (2, name) \<rparr>) 3 m = None)
       \<and> snd (shown_bs_tab (r\<lparr> r_now := t + dt \<rparr>) tab_2_to_3
                (fst (switchToHotkeyTab_timeout (r\<lparr> r_now := t \<rparr>) (Some 2) 3 m))) = []
       \<and> (dt < 500 \<longrightarrow>
            snd (shown_bs_tab (r\<lparr> r_now := t + dt \<rparr>) tab_2_to_3
                   (programmaticSwitch_expired
                      (fst (switchToHotkeyTab_timeout (r\<lparr> r_now := t \<rparr>) (Some 2) 3 m)))) = [])"
proof -
  let ?r = "\<lambda>t. r\<lparr> r_now := t \<rparr>"
  have api: "broadcastApi (?r u)" "hotkeyConfig (?r u) = Some cfg" for u
    using assms by simp_all
  have one: "broadcasts (notifyHotkeyChange (?r u) action key extra) = 1" for u action key extra
    by (rule notify_broadcasts_once[OF api assms(3)])
  have pair: "broadcasts (snd (tab_events r [(t, tab_2_to_3), (t + dt, tab_2_to_3)] fresh_module))
                = (if dt < 500 then 1 else 2)" for dt
    using one
    by (simp add: shown_bs_tab_def Let_def split_beta fresh_module_def setupTabSwitchListeners_def
          is_duplicate_def tab_2_to_3_def broadcasts_def)
  have triple: "broadcasts (snd (tab_events r
            [(t, tab_2_to_3), (t + 50, tab_3_to_2), (t + 100, tab_2_to_3)] fresh_module)) = 3"
    using one
    by (simp add: shown_bs_tab_def Let_def split_beta fresh_module_def setupTabSwitchListeners_def
          is_duplicate_def tab_2_to_3_def tab_3_to_2_def broadcasts_def)
  have prog: "switchToHotkeyTab (r\<lparr> r_now := t + 100, activeLink := Some (2, name) \<rparr>) 3 m = None"
    if "lastNotification m = Some \<lparr> fromTab = Some 2, toTab = 3, timestamp = t \<rparr>"
    using that by (simp add: switchToHotkeyTab_def is_duplicate_def Let_def)
  have flag: "snd (shown_bs_tab (r\<lparr> r_now := t + dt \<rparr>) tab_2_to_3
                (fst (switchToHotkeyTab_timeout (r\<lparr> r_now := t \<rparr>) (Some 2) 3 m))) = []"
    by (simp add: shown_bs_tab_def switchToHotkeyTab_timeout_def Let_def)
  have marker: "snd (shown_bs_tab (r\<lparr> r_now := t + dt \<rparr>) tab_2_to_3
                   (programmaticSwitch_expired
                      (fst (switchToHotkeyTab_timeout (r\<lparr> r_now := t \<rparr>) (Some 2) 3 m)))) = []"
    if "dt < 500"
    using that
    by (simp add: shown_bs_tab_def switchToHotkeyTab_timeout_def programmaticSwitch_expired_def
          is_duplicate_def tab_2_to_3_def Let_def)
  from pair[of dt] pair[of 100] pair[of 600] triple prog flag marker show ?thesis by simp
qed

text \<open>
  Claim C6 holds of the design and fails on the code. The timer callback of
  \<open>switchToHotkeyTab\<close> emits without reading the marker. A programmatic switch from tab 2
  to tab 3 passes the entry check and shows the tab; when Bootstrap's \<open>shown.bs.tab\<close>
  reaches the listener before the timer fires, the listener emits for the pair (2, 3)
  and the callback emits for the same pair 100 ms later: two broadcasts. Two programmatic
  switches to tab 3 that are both started before the first timer fires pass the entry
  check alike (no marker is recorded yet) and emit twice, 10 ms apart.
\<close>

theorem timer_callback_emits_duplicate:
  "switchToHotkeyTab (example_renderer\<lparr> r_now := 1000, activeLink := Some (2, ''Tab 2'') \<rparr>) 3
       fresh_module = Some (Some 2)
   \<and> (let (m1, out1) = shown_bs_tab (example_renderer\<lparr> r_now := 1000 \<rparr>) tab_2_to_3 fresh_module;
            (m2, out2) = switchToHotkeyTab_timeout (example_renderer\<lparr> r_now := 1100 \<rparr>)
                           (Some 2) 3 m1
        in (lastNotification m1, broadcasts out1, broadcasts out2, broadcasts (out1 @ out2)))
       = (Some \<lparr> fromTab = Some 2, toTab = 3, timestamp = 1000 \<rparr>, 1, 1, 2)
   \<and> switchToHotkeyTab (example_renderer\<lparr> r_now := 1010, activeLink := Some (2, ''Tab 2'') \<rparr>) 3
       fresh_module = Some (Some 2)
   \<and> (let (m1, out1) = switchToHotkeyTab_timeout (example_renderer\<lparr> r_now := 1100 \<rparr>)
                           (Some 2) 3 fresh_module;
            (m2, out2) = switchToHotkeyTab_timeout (example_renderer\<lparr> r_now := 1110 \<rparr>)
                           (Some 2) 3 m1
        in (broadcasts out1, broadcasts out2, broadcasts (out1 @ out2)))
       = (1, 1, 2)"
proof -
  have one: "broadcasts (notifyHotkeyChange (example_renderer\<lparr> r_now := u \<rparr>) action key extra) = 1"
    for u action key extra
    by (rule notify_broadcasts_once[where cfg = "Obj [(''hotkeys'', Obj [])]"])
       (simp_all add: example_renderer_def)
  have app: "broadcasts (xs @ ys) = broadcasts xs + broadcasts ys" for xs ys
    by (simp add: broadcasts_def)
  show ?thesis
    using one
    by (simp add: switchToHotkeyTab_def shown_bs_tab_def switchToHotkeyTab_timeout_def
          is_duplicate_def fresh_module_def setupTabSwitchListeners_def tab_2_to_3_def
          app Let_def split_beta)
qed

end
